theory Spec2Isabelle
  imports Complex_Main "HOL-Library.Char_ord" "HOL-Library.List_Lexorder" "HOL-Library.Product_Lexorder"
begin

section \<open>Numbers\<close>

text \<open>
  The Python code computes with numpy float64 values.  A value is modelled as a real number
  or one of the three special floats; arithmetic on finite values is exact (rounding and
  overflow of float64 are not modelled).
\<close>

datatype fval = Fin real | PInf | NInf | NaN

fun isfinite :: "fval \<Rightarrow> bool" where
  "isfinite (Fin x) = True"
| "isfinite _ = False"

text \<open>Float comparison \<open>a < b\<close>; every comparison with NaN is false.\<close>

fun flt :: "fval \<Rightarrow> fval \<Rightarrow> bool" where
  "flt NaN _ = False"
| "flt _ NaN = False"
| "flt (Fin a) (Fin b) = (a < b)"
| "flt (Fin a) PInf = True"
| "flt (Fin a) NInf = False"
| "flt PInf _ = False"
| "flt NInf NInf = False"
| "flt NInf _ = True"

definition fgt :: "fval \<Rightarrow> fval \<Rightarrow> bool" where
  "fgt a b = flt b a"

text \<open>The real behind a float; read only on values the mask has found finite.\<close>

fun real_of_fval :: "fval \<Rightarrow> real" where
  "real_of_fval (Fin x) = x"
| "real_of_fval _ = 0"

definition mean :: "real list \<Rightarrow> real" where
  "mean xs = sum_list xs / real (length xs)"

text \<open>Float comparison \<open>a \<le> b\<close>; false when either side is NaN.\<close>

fun fle :: "fval \<Rightarrow> fval \<Rightarrow> bool" where
  "fle NaN _ = False"
| "fle _ NaN = False"
| "fle (Fin a) (Fin b) = (a \<le> b)"
| "fle NInf _ = True"
| "fle _ PInf = True"
| "fle _ _ = False"

section \<open>Metric and evaluation engine (model_evaluator.py)\<close>

text \<open>
  The result dictionaries.  The early returns of \<open>evaluate_model\<close> hold the four metric keys
  only; the dictionary it stores and returns on a scored call has the keys
  \<open>model_name\<close> and \<open>unified_code\<close> as well.
\<close>

record metrics =
  mae :: fval
  rmse :: fval
  mape :: fval
  r2 :: fval

record eval_result = metrics +
  model_name :: string
  unified_code :: string

datatype eval_return = Unscored metrics | Scored eval_result

text \<open>
  \<open>self.evaluation_results\<close>: a Python dict from string keys to result dictionaries.
  A dict keeps insertion order, and assigning to a key that is present replaces the value
  in place.
\<close>

type_synonym store = "(string \<times> eval_result) list"

fun dict_set :: "'k \<Rightarrow> 'v \<Rightarrow> ('k \<times> 'v) list \<Rightarrow> ('k \<times> 'v) list" where
  "dict_set k v [] = [(k, v)]"
| "dict_set k v ((k', v') # kvs) = (if k' = k then (k, v) # kvs else (k', v') # dict_set k v kvs)"

definition worst_metrics :: metrics where
  "worst_metrics = \<lparr>mae = PInf, rmse = PInf, mape = PInf, r2 = NInf\<rparr>"

text \<open>\<open>mask = np.isfinite(y_true) & np.isfinite(y_pred) & (y_true > 0)\<close>, pointwise.\<close>

definition mask :: "fval \<times> fval \<Rightarrow> bool" where
  "mask tp = (isfinite (fst tp) \<and> isfinite (snd tp) \<and> fgt (fst tp) (Fin 0))"

definition store_key :: "string \<Rightarrow> string \<Rightarrow> string" where
  "store_key code model_nm = code @ ''_'' @ model_nm"

definition evaluate_model ::
  "store \<Rightarrow> fval list \<Rightarrow> fval list \<Rightarrow> string \<Rightarrow> string \<Rightarrow> eval_return \<times> store" where
  "evaluate_model results y_true y_pred model_nm code =
    (if length y_true = 0 \<or> length y_pred = 0 then (Unscored worst_metrics, results)
     else
       let min_len = min (length y_true) (length y_pred);
           pts = zip (take min_len y_true) (take min_len y_pred)
       in if length (filter mask pts) = 0 then (Unscored worst_metrics, results)
          else
            let y_true_filtered = map (real_of_fval \<circ> fst) (filter mask pts);
                y_pred_filtered = map (real_of_fval \<circ> snd) (filter mask pts);
                err = map2 (\<lambda>t p. t - p) y_true_filtered y_pred_filtered;
                mae_v = mean (map abs err);
                rmse_v = sqrt (mean (map (\<lambda>e. e\<^sup>2) err));
                mape_v = mean (map2 (\<lambda>t p. \<bar>(t - p) / t\<bar>) y_true_filtered y_pred_filtered) * 100;
                ss_res = sum_list (map (\<lambda>e. e\<^sup>2) err);
                ss_tot = sum_list (map (\<lambda>t. (t - mean y_true_filtered)\<^sup>2) y_true_filtered);
                r2_v = (if ss_tot > 0 then Fin (1 - ss_res / ss_tot) else NInf);
                res = \<lparr>mae = Fin mae_v, rmse = Fin rmse_v, mape = Fin mape_v, r2 = r2_v,
                        model_name = model_nm, unified_code = code\<rparr>
            in (Scored res, dict_set (store_key code model_nm) res results))"

text \<open>
  Values read out of a result dictionary by \<open>.get(metric, default)\<close>: a float for the
  metric keys and for an absent key (the default), a string for the two name keys.
\<close>

datatype pyval = Num fval | Str string

definition result_get :: "eval_result \<Rightarrow> string \<Rightarrow> fval \<Rightarrow> pyval" where
  "result_get r metric dflt =
    (if metric = ''mae'' then Num (mae r)
     else if metric = ''rmse'' then Num (rmse r)
     else if metric = ''mape'' then Num (mape r)
     else if metric = ''r2'' then Num (r2 r)
     else if metric = ''model_name'' then Str (model_name r)
     else if metric = ''unified_code'' then Str (unified_code r)
     else Num dflt)"

text \<open>
  Python's \<open><\<close> on these values.  All results have the same keys, so one call of
  \<open>select_best_model\<close> compares floats with floats or strings with strings, never both.
\<close>

fun py_lt :: "pyval \<Rightarrow> pyval \<Rightarrow> bool" where
  "py_lt (Num a) (Num b) = flt a b"
| "py_lt (Str a) (Str b) = (a < b)"
| "py_lt _ _ = False"

text \<open>
  The builtins \<open>min(xs, key=f)\<close> and \<open>max(xs, key=f)\<close> on a non-empty sequence: the first
  element is the candidate, and a later element replaces it only when its key is strictly
  smaller (strictly larger for \<open>max\<close>).
\<close>

fun py_min_from :: "('a \<Rightarrow> pyval) \<Rightarrow> 'a \<Rightarrow> 'a list \<Rightarrow> 'a" where
  "py_min_from f best [] = best"
| "py_min_from f best (x # xs) = py_min_from f (if py_lt (f x) (f best) then x else best) xs"

fun py_max_from :: "('a \<Rightarrow> pyval) \<Rightarrow> 'a \<Rightarrow> 'a list \<Rightarrow> 'a" where
  "py_max_from f best [] = best"
| "py_max_from f best (x # xs) = py_max_from f (if py_lt (f best) (f x) then x else best) xs"

definition startswith :: "string \<Rightarrow> string \<Rightarrow> bool" where
  "startswith k pre = (take (length pre) k = pre)"

definition product_results :: "store \<Rightarrow> string \<Rightarrow> store" where
  "product_results results code = filter (\<lambda>(k, v). startswith k (code @ ''_'')) results"

definition select_best_model :: "store \<Rightarrow> string \<Rightarrow> string \<Rightarrow> string option" where
  "select_best_model results code metric =
    (case product_results results code of
       [] \<Rightarrow> None
     | kv # kvs \<Rightarrow>
         let best =
           (if metric \<in> set [''mae'', ''rmse'', ''mape'']
            then py_min_from (\<lambda>(k, v). result_get v metric PInf) kv kvs
            else py_max_from (\<lambda>(k, v). result_get v metric NInf) kv kvs)
         in Some (model_name (snd best)))"


section \<open>Tables\<close>

text \<open>
  A pandas DataFrame is a list of rows, one record per row, in index order.  A date is
  year, month and day; tuples are ordered lexicographically, which is the order of time.
\<close>

type_synonym date = "nat \<times> nat \<times> nat"

record forecast_row =
  fc_date :: date
  fc_unified_code :: string
  fc_quantity :: real

record stock_row =
  st_date :: date
  st_warehouse :: string
  st_unified_code :: string
  st_stock :: real

record shipment_row =
  sh_date :: date
  sh_warehouse :: string
  sh_unified_code :: string
  sh_forecasted_sales :: real
  sh_current_stock :: real
  sh_required_stock :: real
  sh_shipment :: real
  sh_boxes :: "real option"

text \<open>
  \<open>df.groupby(keys)[col].sum().reset_index()\<close>: one row per distinct key, in ascending key
  order, holding the sum of the column over the rows with that key.
\<close>

definition groupby_sum :: "('r \<Rightarrow> 'k::linorder) \<Rightarrow> ('r \<Rightarrow> real) \<Rightarrow> 'r list \<Rightarrow> ('k \<times> real) list" where
  "groupby_sum key val rows =
     map (\<lambda>k. (k, sum_list (map val (filter (\<lambda>r. key r = k) rows)))) (sort (remdups (map key rows)))"

text \<open>\<open>column.max()\<close> of a non-empty column.\<close>

definition column_max :: "'a::linorder list \<Rightarrow> 'a" where
  "column_max xs = fold max xs (hd xs)"

section \<open>Shipment calculator (shipment_calculator.py)\<close>

definition to_period_M :: "date \<Rightarrow> nat \<times> nat" where
  "to_period_M d = (fst d, fst (snd d))"

definition to_timestamp :: "nat \<times> nat \<Rightarrow> date" where
  "to_timestamp ym = (fst ym, snd ym, 1)"

definition forecast_monthly :: "forecast_row list \<Rightarrow> forecast_row list" where
  "forecast_monthly forecast =
     map (\<lambda>((year_month, code), quantity).
            \<lparr>fc_date = to_timestamp year_month, fc_unified_code = code, fc_quantity = quantity\<rparr>)
         (groupby_sum (\<lambda>r. (to_period_M (fc_date r), fc_unified_code r)) fc_quantity forecast)"

definition latest_stocks :: "stock_row list \<Rightarrow> stock_row list" where
  "latest_stocks stocks =
     (if stocks \<noteq> [] then filter (\<lambda>r. st_date r = column_max (map st_date stocks)) stocks
      else stocks)"

definition stocks_by_product_warehouse :: "stock_row list \<Rightarrow> ((string \<times> string) \<times> real) list" where
  "stocks_by_product_warehouse latest =
     (if latest \<noteq> [] then groupby_sum (\<lambda>r. (st_unified_code r, st_warehouse r)) st_stock latest
      else [])"

text \<open>The rows of one product: warehouse and summed stock.\<close>

definition product_stocks :: "((string \<times> string) \<times> real) list \<Rightarrow> string \<Rightarrow> (string \<times> real) list" where
  "product_stocks by_product_warehouse code =
     map (\<lambda>((c, w), stock). (w, stock)) (filter (\<lambda>((c, w), stock). c = code) by_product_warehouse)"

text \<open>The body of the loop over the monthly forecast rows.\<close>

definition month_shipments :: "real \<Rightarrow> (string \<times> real) list \<Rightarrow> forecast_row \<Rightarrow> shipment_row list" where
  "month_shipments coverage_coefficient p_stocks row =
    (let date = fc_date row; code = fc_unified_code row;
         forecasted_sales_monthly = fc_quantity row
     in if p_stocks = [] then []
        else
          let required_stock_total = forecasted_sales_monthly * coverage_coefficient;
              current_stock_total = sum_list (map snd p_stocks)
          in if current_stock_total < required_stock_total then
               let total_shipment_needed = required_stock_total - current_stock_total;
                   shipment =
                     (if current_stock_total > 0
                      then (\<lambda>stock. total_shipment_needed * stock / current_stock_total)
                      else (\<lambda>stock. total_shipment_needed / real (length p_stocks)))
               in map (\<lambda>(warehouse, stock).
                         \<lparr>sh_date = date, sh_warehouse = warehouse, sh_unified_code = code,
                          sh_forecasted_sales = forecasted_sales_monthly, sh_current_stock = stock,
                          sh_required_stock = required_stock_total, sh_shipment = shipment stock,
                          sh_boxes = None\<rparr>)
                      (filter (\<lambda>(warehouse, stock). shipment stock > 0) p_stocks)
             else
               let avg_required_per_warehouse = required_stock_total / real (length p_stocks)
               in map (\<lambda>(warehouse, stock).
                         \<lparr>sh_date = date, sh_warehouse = warehouse, sh_unified_code = code,
                          sh_forecasted_sales = forecasted_sales_monthly, sh_current_stock = stock,
                          sh_required_stock = avg_required_per_warehouse,
                          sh_shipment = avg_required_per_warehouse - stock, sh_boxes = None\<rparr>)
                      (filter (\<lambda>(warehouse, stock). stock < avg_required_per_warehouse) p_stocks))"

definition calculate_shipments :: "real \<Rightarrow> forecast_row list \<Rightarrow> stock_row list \<Rightarrow> shipment_row list" where
  "calculate_shipments coverage_coefficient forecast stocks =
     (let by_product_warehouse = stocks_by_product_warehouse (latest_stocks stocks)
      in concat (map (\<lambda>row. month_shipments coverage_coefficient
                              (product_stocks by_product_warehouse (fc_unified_code row)) row)
                     (forecast_monthly forecast)))"

section \<open>Constraint engine (constraints.py)\<close>

text \<open>
  A row of the defecture list; \<open>df_end_date\<close> is \<open>None\<close> when the list has no end date for
  the row (the code then compares with \<open>pd.Timestamp.max\<close>, or with a missing date, and no
  forecast date is later).  A row of the withdraw list holds the product key.
\<close>

record defecture_row =
  df_unified_code :: string
  df_end_date :: "date option"

record withdraw_row =
  wd_unified_code :: string

definition dict_get :: "('k \<rightharpoonup> 'v) \<Rightarrow> 'k \<Rightarrow> 'v \<Rightarrow> 'v" where
  "dict_get d k dflt = (case d k of Some v \<Rightarrow> v | None \<Rightarrow> dflt)"

definition get_latest_stocks :: "stock_row list \<Rightarrow> (string \<rightharpoonup> real)" where
  "get_latest_stocks stocks =
     (if stocks = [] then Map.empty
      else
        let latest_date = column_max (map st_date stocks);
            latest = filter (\<lambda>r. st_date r = latest_date) stocks
        in map_of (groupby_sum st_unified_code st_stock latest))"

text \<open>\<open>forecast['date'] > end_date\<close> for one forecast date.\<close>

definition past_end_date :: "date \<Rightarrow> date option \<Rightarrow> bool" where
  "past_end_date d end_date = (case end_date of None \<Rightarrow> False | Some e \<Rightarrow> e < d)"

text \<open>One round of the loop over the defecture list.\<close>

definition defecture_step ::
  "(string \<rightharpoonup> real) \<Rightarrow> (string \<rightharpoonup> real) \<Rightarrow> defecture_row \<Rightarrow> forecast_row list \<Rightarrow> forecast_row list" where
  "defecture_step latest_wb_stocks latest_ozon_stocks defecture_row forecast =
    (let code = df_unified_code defecture_row; end_date = df_end_date defecture_row
     in if code \<notin> set (map fc_unified_code forecast) then forecast
        else
          let future_dates =
                filter (\<lambda>r. fc_unified_code r = code \<and> past_end_date (fc_date r) end_date) forecast
          in if length future_dates = 0 then
               let wb_total = dict_get latest_wb_stocks code 0;
                   ozon_total = dict_get latest_ozon_stocks code 0;
                   total_stock = wb_total + ozon_total
               in if total_stock \<le> 0
                  then map (\<lambda>r. if fc_unified_code r = code then r\<lparr>fc_quantity := 0\<rparr> else r) forecast
                  else forecast
             else forecast)"

definition apply_defecture_constraints ::
  "forecast_row list \<Rightarrow> defecture_row list \<Rightarrow> stock_row list \<Rightarrow> stock_row list \<Rightarrow> forecast_row list" where
  "apply_defecture_constraints forecast defecture_list wb_stocks ozon_stocks =
    (if defecture_list = [] then forecast
     else fold (defecture_step (get_latest_stocks wb_stocks) (get_latest_stocks ozon_stocks))
               defecture_list forecast)"

text \<open>
  Box rounding.  \<open>self.default_box_size\<close> is 24; \<open>self.box_sizes\<close> and the optional
  argument are dicts from product keys (and the key \<open>default\<close>) to box sizes.  A box size
  of zero is outside the model: the code divides floats by it and stores inf or nan.
\<close>

definition default_box_size :: int where
  "default_box_size = 24"

definition box_size_for :: "(string \<rightharpoonup> int) \<Rightarrow> string \<Rightarrow> int" where
  "box_size_for box_sizes code =
     (case box_sizes code of
        Some b \<Rightarrow> b
      | None \<Rightarrow> (case box_sizes ''default'' of Some b \<Rightarrow> b | None \<Rightarrow> default_box_size))"

definition box_row :: "(string \<rightharpoonup> int) \<Rightarrow> shipment_row \<Rightarrow> shipment_row" where
  "box_row box_sizes row =
     (let shipment = sh_shipment row;
          box_size = real_of_int (box_size_for box_sizes (sh_unified_code row));
          boxes = of_int \<lceil>shipment / box_size\<rceil>;
          rounded_shipment = boxes * box_size
      in row\<lparr>sh_shipment := rounded_shipment, sh_boxes := Some boxes\<rparr>)"

definition apply_box_constraints ::
  "(string \<rightharpoonup> int) \<Rightarrow> (string \<rightharpoonup> int) option \<Rightarrow> shipment_row list \<Rightarrow> shipment_row list" where
  "apply_box_constraints self_box_sizes box_sizes shipments =
     (if shipments = [] then shipments
      else
        let box_sizes' = (case box_sizes of None \<Rightarrow> self_box_sizes | Some b \<Rightarrow> b)
        in map (box_row box_sizes') shipments)"

definition apply_shipment_withdraw_constraints ::
  "shipment_row list \<Rightarrow> withdraw_row list \<Rightarrow> shipment_row list" where
  "apply_shipment_withdraw_constraints shipments withdraw_list =
     (if withdraw_list = [] then shipments
      else
        let withdraw_codes = set (map wd_unified_code withdraw_list)
        in map (\<lambda>r. if sh_unified_code r \<in> withdraw_codes then r\<lparr>sh_shipment := 0\<rparr> else r) shipments)"

section \<open>Forecast ledger (forecast_manager.py)\<close>

text \<open>
  The storage directory is the list of its files, name and content, in the order in which
  \<open>glob\<close> lists them.  A file holds a forecast table written by \<open>to_csv\<close>, a metadata
  document, or something \<open>read_csv\<close> cannot parse.
\<close>

datatype file_content = Csv "forecast_row list" | Json | Corrupt

type_synonym storage = "(string \<times> file_content) list"

fun read_csv :: "file_content \<Rightarrow> forecast_row list option" where
  "read_csv (Csv rows) = Some rows"
| "read_csv _ = None"

text \<open>
  \<open>forecast_date.strftime('%Y%m%d_%H%M%S')\<close> for a date and time given as year, month, day,
  hour, minute and second, the year having at most four digits.
\<close>

definition digit :: "nat \<Rightarrow> char" where
  "digit n = ''0123456789'' ! (n mod 10)"

definition pad2 :: "nat \<Rightarrow> string" where
  "pad2 n = [digit (n div 10), digit n]"

definition pad4 :: "nat \<Rightarrow> string" where
  "pad4 n = [digit (n div 1000), digit (n div 100), digit (n div 10), digit n]"

definition strftime :: "nat \<times> nat \<times> nat \<times> nat \<times> nat \<times> nat \<Rightarrow> string" where
  "strftime t =
     (case t of (year, month, day, hour, minute, second) \<Rightarrow>
        pad4 year @ pad2 month @ pad2 day @ ''_'' @ pad2 hour @ pad2 minute @ pad2 second)"

text \<open>\<open>metadata\<close> is the flag of the test \<open>if metadata\<close>; the document itself is not read here.\<close>

definition save_forecast ::
  "storage \<Rightarrow> forecast_row list \<Rightarrow> string \<Rightarrow> string \<Rightarrow> nat \<times> nat \<times> nat \<times> nat \<times> nat \<times> nat \<Rightarrow> bool \<Rightarrow> storage" where
  "save_forecast files forecast model_nm marketplace forecast_date metadata =
     (let filename = marketplace @ ''_'' @ model_nm @ ''_'' @ strftime forecast_date @ ''.csv'';
          files' = dict_set filename (Csv forecast) files
      in if metadata
         then dict_set (marketplace @ ''_'' @ model_nm @ ''_'' @ strftime forecast_date @ ''_metadata.json'')
                Json files'
         else files')"

text \<open>
  Matching a file name against a glob pattern: \<open>*\<close> stands for any run of characters and
  \<open>?\<close> for one character; bracketed character classes are not modelled.
\<close>

fun glob_match :: "string \<Rightarrow> string \<Rightarrow> bool" where
  "glob_match [] s = (s = [])"
| "glob_match (p # ps) [] = (p = CHR ''*'' \<and> glob_match ps [])"
| "glob_match (p # ps) (c # cs) =
     (if p = CHR ''*'' then glob_match ps (c # cs) \<or> glob_match (p # ps) cs
      else (p = CHR ''?'' \<or> p = c) \<and> glob_match ps cs)"

text \<open>\<open>Path.stem\<close>: the name without its last suffix.\<close>

definition stem :: "string \<Rightarrow> string" where
  "stem name =
     (let after_dot = takeWhile (\<lambda>c. c \<noteq> CHR ''.'') (rev name)
      in if length after_dot + 1 < length name \<and> after_dot \<noteq> []
         then take (length name - length after_dot - 1) name
         else name)"

text \<open>\<open>s.split(sep)\<close> for a one-character separator, and \<open>sep.join(parts)\<close>.\<close>

fun split :: "char \<Rightarrow> string \<Rightarrow> string list" where
  "split sep [] = [[]]"
| "split sep (c # cs) =
     (if c = sep then [] # split sep cs
      else (case split sep cs of [] \<Rightarrow> [[c]] | part # parts \<Rightarrow> (c # part) # parts))"

fun join :: "string \<Rightarrow> string list \<Rightarrow> string" where
  "join sep [] = []"
| "join sep [part] = part"
| "join sep (part # parts) = part @ sep @ join sep parts"

text \<open>
  A row of the history table: a forecast row and the three columns read from the file
  name, absent when the name has fewer than three parts.
\<close>

record history_row =
  hr_date :: date
  hr_unified_code :: string
  hr_quantity :: real
  hr_marketplace :: "string option"
  hr_model_name :: "string option"
  hr_forecast_date :: "string option"

definition annotate :: "string list \<Rightarrow> forecast_row \<Rightarrow> history_row" where
  "annotate parts r =
     (if length parts \<ge> 3
      then \<lparr>hr_date = fc_date r, hr_unified_code = fc_unified_code r, hr_quantity = fc_quantity r,
            hr_marketplace = Some (parts ! 0), hr_model_name = Some (parts ! 1),
            hr_forecast_date = Some (join ''_'' (drop 2 parts))\<rparr>
      else \<lparr>hr_date = fc_date r, hr_unified_code = fc_unified_code r, hr_quantity = fc_quantity r,
            hr_marketplace = None, hr_model_name = None, hr_forecast_date = None\<rparr>)"

text \<open>
  The optional filters: the test \<open>if x\<close> is false for \<open>None\<close> and for the empty string.
\<close>

definition history_pattern :: "string option \<Rightarrow> string option \<Rightarrow> string" where
  "history_pattern marketplace model_nm =
     (let pattern = ''*_*_*.csv'';
          pattern = (case marketplace of
                       Some m \<Rightarrow> if m \<noteq> [] then m @ ''_*_*.csv'' else pattern
                     | None \<Rightarrow> pattern);
          pattern = (case model_nm of
                       Some n \<Rightarrow> if n \<noteq> [] then ''*_'' @ n @ ''_*.csv'' else pattern
                     | None \<Rightarrow> pattern)
      in pattern)"

definition get_forecast_history ::
  "storage \<Rightarrow> string option \<Rightarrow> string option \<Rightarrow> string option \<Rightarrow> history_row list" where
  "get_forecast_history files marketplace model_nm code =
     (let matched = filter (\<lambda>(name, content). glob_match (history_pattern marketplace model_nm) name) files;
          all_forecasts =
            List.map_filter
              (\<lambda>(name, content).
                 case read_csv content of
                   None \<Rightarrow> None
                 | Some forecast \<Rightarrow> Some (map (annotate (split CHR ''_'' (stem name))) forecast))
              matched
      in if all_forecasts = [] then []
         else
           let result = concat all_forecasts
           in (case code of
                 Some c \<Rightarrow> if c \<noteq> [] then filter (\<lambda>r. hr_unified_code r = c) result else result
               | None \<Rightarrow> result))"

section \<open>Example tables\<close>

text \<open>
  One stock table and one forecast, used to run the shipment calculator: product \<open>P\<close> has
  stock 30, 70 and 0 in three warehouses at the latest stock date (and an older record that
  is not read), product \<open>Z\<close> has two warehouses with no stock, product \<open>R\<close> has no stock
  record.
\<close>

definition example_stocks :: "stock_row list" where
  "example_stocks =
    [\<lparr>st_date = (2024, 1, 1), st_warehouse = ''W9'', st_unified_code = ''P'', st_stock = 500\<rparr>,
     \<lparr>st_date = (2024, 2, 1), st_warehouse = ''W2'', st_unified_code = ''P'', st_stock = 70\<rparr>,
     \<lparr>st_date = (2024, 2, 1), st_warehouse = ''W1'', st_unified_code = ''P'', st_stock = 10\<rparr>,
     \<lparr>st_date = (2024, 2, 1), st_warehouse = ''W1'', st_unified_code = ''P'', st_stock = 20\<rparr>,
     \<lparr>st_date = (2024, 2, 1), st_warehouse = ''W3'', st_unified_code = ''P'', st_stock = 0\<rparr>,
     \<lparr>st_date = (2024, 2, 1), st_warehouse = ''W1'', st_unified_code = ''Z'', st_stock = 0\<rparr>,
     \<lparr>st_date = (2024, 2, 1), st_warehouse = ''W2'', st_unified_code = ''Z'', st_stock = 0\<rparr>]"

definition example_forecast :: "forecast_row list" where
  "example_forecast =
    [\<lparr>fc_date = (2024, 3, 10), fc_unified_code = ''P'', fc_quantity = 60\<rparr>,
     \<lparr>fc_date = (2024, 3, 20), fc_unified_code = ''P'', fc_quantity = 40\<rparr>,
     \<lparr>fc_date = (2024, 4, 20), fc_unified_code = ''P'', fc_quantity = 10\<rparr>,
     \<lparr>fc_date = (2024, 3, 20), fc_unified_code = ''R'', fc_quantity = 40\<rparr>,
     \<lparr>fc_date = (2024, 3, 5), fc_unified_code = ''Z'', fc_quantity = 40\<rparr>]"

text \<open>Shipment rows to round and to zero: the first is scenario A of the specification.\<close>

definition example_shipments :: "shipment_row list" where
  "example_shipments =
    [\<lparr>sh_date = (2024, 3, 1), sh_warehouse = ''W'', sh_unified_code = ''P'', sh_forecasted_sales = 100,
      sh_current_stock = 50, sh_required_stock = 150, sh_shipment = 100, sh_boxes = None\<rparr>,
     \<lparr>sh_date = (2024, 3, 1), sh_warehouse = ''W'', sh_unified_code = ''Q'', sh_forecasted_sales = 40,
      sh_current_stock = 3, sh_required_stock = 60, sh_shipment = 57, sh_boxes = None\<rparr>,
     \<lparr>sh_date = (2024, 3, 1), sh_warehouse = ''W'', sh_unified_code = ''R'', sh_forecasted_sales = 40,
      sh_current_stock = 12, sh_required_stock = 60, sh_shipment = 48, sh_boxes = None\<rparr>]"

text \<open>
  A daily forecast, a defecture list and a marketplace stock table: product \<open>P\<close> is in
  defecture until the end of January with no stock at the latest stock date, product \<open>S\<close>
  was in defecture until the first of February.
\<close>

definition example_daily_forecast :: "forecast_row list" where
  "example_daily_forecast =
    [\<lparr>fc_date = (2024, 1, 5), fc_unified_code = ''P'', fc_quantity = 10\<rparr>,
     \<lparr>fc_date = (2024, 1, 20), fc_unified_code = ''P'', fc_quantity = 7\<rparr>,
     \<lparr>fc_date = (2024, 1, 5), fc_unified_code = ''Q'', fc_quantity = 3\<rparr>,
     \<lparr>fc_date = (2024, 3, 1), fc_unified_code = ''S'', fc_quantity = 9\<rparr>]"

definition example_defecture_list :: "defecture_row list" where
  "example_defecture_list =
    [\<lparr>df_unified_code = ''P'', df_end_date = Some (2024, 1, 31)\<rparr>,
     \<lparr>df_unified_code = ''S'', df_end_date = Some (2024, 2, 1)\<rparr>]"

definition example_wb_stocks :: "stock_row list" where
  "example_wb_stocks =
    [\<lparr>st_date = (2023, 12, 1), st_warehouse = ''W1'', st_unified_code = ''P'', st_stock = 50\<rparr>,
     \<lparr>st_date = (2024, 1, 1), st_warehouse = ''W1'', st_unified_code = ''P'', st_stock = 0\<rparr>,
     \<lparr>st_date = (2024, 1, 1), st_warehouse = ''W1'', st_unified_code = ''Q'', st_stock = 4\<rparr>]"



section \<open>Properties of the evaluation engine and the selector\<close>

subsection \<open>Floats, dicts and the builtins\<close>

lemma map_of_dict_set: "map_of (dict_set k v kvs) = (map_of kvs)(k \<mapsto> v)"
  by (induction kvs) (auto simp: fun_eq_iff)

lemma py_min_from_mem: "py_min_from f b xs \<in> set (b # xs)"
  by (induction xs arbitrary: b) auto

lemma py_max_from_mem: "py_max_from f b xs \<in> set (b # xs)"
  by (induction xs arbitrary: b) auto

lemma py_min_from_least:
  assumes "\<forall>x \<in> set (b # xs). g x \<noteq> NaN"
  shows "\<forall>x \<in> set (b # xs). fle (g (py_min_from (\<lambda>x. Num (g x)) b xs)) (g x)"
  using assms
proof (induction xs arbitrary: b)
  case Nil
  then show ?case by (cases "g b") auto
next
  case (Cons y ys)
  let ?b' = "if flt (g y) (g b) then y else b"
  let ?m = "py_min_from (\<lambda>x. Num (g x)) ?b' ys"
  have ih: "\<forall>x \<in> set (?b' # ys). fle (g ?m) (g x)"
    using Cons.prems by (intro Cons.IH) auto
  have nb: "g b \<noteq> NaN" and ny: "g y \<noteq> NaN" using Cons.prems by auto
  have mb: "fle (g ?m) (g ?b')" using ih by simp
  have "fle (g ?m) (g b) \<and> fle (g ?m) (g y)"
    using mb nb ny by (cases "g ?m"; cases "g b"; cases "g y") (auto split: if_splits)
  then show ?case using ih by auto
qed

lemma py_max_from_greatest:
  assumes "\<forall>x \<in> set (b # xs). g x \<noteq> NaN"
  shows "\<forall>x \<in> set (b # xs). fle (g x) (g (py_max_from (\<lambda>x. Num (g x)) b xs))"
  using assms
proof (induction xs arbitrary: b)
  case Nil
  then show ?case by (cases "g b") auto
next
  case (Cons y ys)
  let ?b' = "if flt (g b) (g y) then y else b"
  let ?m = "py_max_from (\<lambda>x. Num (g x)) ?b' ys"
  have ih: "\<forall>x \<in> set (?b' # ys). fle (g x) (g ?m)"
    using Cons.prems by (intro Cons.IH) auto
  have nb: "g b \<noteq> NaN" and ny: "g y \<noteq> NaN" using Cons.prems by auto
  have mb: "fle (g ?b') (g ?m)" using ih by simp
  have "fle (g b) (g ?m) \<and> fle (g y) (g ?m)"
    using mb nb ny by (cases "g ?m"; cases "g b"; cases "g y") (auto split: if_splits)
  then show ?case using ih by auto
qed

subsection \<open>Reading a metric, unfolding the selector\<close>

lemma result_get_mae: "result_get r ''mae'' d = Num (mae r)"
  by (simp add: result_get_def)

lemma result_get_rmse: "result_get r ''rmse'' d = Num (rmse r)"
  by (simp add: result_get_def)

lemma result_get_mape: "result_get r ''mape'' d = Num (mape r)"
  by (simp add: result_get_def)

lemma result_get_r2: "result_get r ''r2'' d = Num (r2 r)"
  by (simp add: result_get_def)

lemma error_metric_key:
  assumes mf: "(metric, fld) \<in> {(''mae'', mae), (''rmse'', rmse), (''mape'', mape)}"
  shows "(\<lambda>(k, v). result_get v metric PInf) = (\<lambda>x. Num (fld (snd x)))"
proof -
  from mf consider "metric = ''mae'' \<and> fld = mae" | "metric = ''rmse'' \<and> fld = rmse"
    | "metric = ''mape'' \<and> fld = mape" by blast
  then show ?thesis
  proof cases
    case 1 then show ?thesis by (simp add: result_get_mae fun_eq_iff)
  next
    case 2 then show ?thesis by (simp add: result_get_rmse fun_eq_iff)
  next
    case 3 then show ?thesis by (simp add: result_get_mape fun_eq_iff)
  qed
qed

lemma error_metric_listed:
  assumes mf: "(metric, fld) \<in> {(''mae'', mae), (''rmse'', rmse), (''mape'', mape)}"
  shows "metric \<in> set [''mae'', ''rmse'', ''mape'']"
proof -
  from mf consider "metric = ''mae''" | "metric = ''rmse''" | "metric = ''mape''" by blast
  then show ?thesis by cases simp_all
qed

lemma mape_listed: "''mape'' \<in> set [''mae'', ''rmse'', ''mape'']"
  by simp

lemma r2_not_listed: "''r2'' \<notin> set [''mae'', ''rmse'', ''mape'']"
  by simp

lemma select_none:
  "product_results results code = [] \<Longrightarrow> select_best_model results code metric = None"
  by (simp add: select_best_model_def)

lemma select_min_unfold:
  assumes "product_results results code = kv # kvs"
    and "metric \<in> set [''mae'', ''rmse'', ''mape'']"
  shows "select_best_model results code metric =
    Some (model_name (snd (py_min_from (\<lambda>(k, v). result_get v metric PInf) kv kvs)))"
  unfolding select_best_model_def assms(1) using assms(2)
  by (simp only: list.case Let_def if_True)

lemma select_max_unfold:
  assumes "product_results results code = kv # kvs"
    and "metric \<notin> set [''mae'', ''rmse'', ''mape'']"
  shows "select_best_model results code metric =
    Some (model_name (snd (py_max_from (\<lambda>(k, v). result_get v metric NInf) kv kvs)))"
  unfolding select_best_model_def assms(1) using assms(2)
  by (simp only: list.case Let_def if_False)

lemma select_min:
  assumes ne: "product_results results code \<noteq> []"
    and mf: "(metric, fld) \<in> {(''mae'', mae), (''rmse'', rmse), (''mape'', mape)}"
    and nn: "\<forall>(k, r) \<in> set (product_results results code). fld r \<noteq> NaN"
  shows "\<exists>(k, r) \<in> set (product_results results code).
           select_best_model results code metric = Some (model_name r) \<and>
           (\<forall>(k', r') \<in> set (product_results results code). fle (fld r) (fld r'))"
proof -
  obtain kv kvs where pr: "product_results results code = kv # kvs"
    using ne by (cases "product_results results code") auto
  let ?g = "\<lambda>kv. fld (snd kv)"
  let ?best = "py_min_from (\<lambda>x. Num (?g x)) kv kvs"
  have sel: "select_best_model results code metric = Some (model_name (snd ?best))"
    using select_min_unfold[OF pr error_metric_listed[OF mf]]
    by (simp only: error_metric_key[OF mf])
  have mem: "?best \<in> set (kv # kvs)" by (rule py_min_from_mem)
  have "\<forall>x \<in> set (kv # kvs). ?g x \<noteq> NaN" using nn pr by auto
  then have least: "\<forall>x \<in> set (kv # kvs). fle (?g ?best) (?g x)"
    by (rule py_min_from_least)
  show ?thesis
    unfolding pr using sel mem least
    by (intro bexI[of _ ?best]) (auto simp: case_prod_beta)
qed

lemma select_max:
  assumes ne: "product_results results code \<noteq> []"
    and nn: "\<forall>(k, r) \<in> set (product_results results code). r2 r \<noteq> NaN"
  shows "\<exists>(k, r) \<in> set (product_results results code).
           select_best_model results code ''r2'' = Some (model_name r) \<and>
           (\<forall>(k', r') \<in> set (product_results results code). fle (r2 r') (r2 r))"
proof -
  obtain kv kvs where pr: "product_results results code = kv # kvs"
    using ne by (cases "product_results results code") auto
  let ?g = "\<lambda>kv. r2 (snd kv)"
  let ?best = "py_max_from (\<lambda>x. Num (?g x)) kv kvs"
  have key: "(\<lambda>(k, v). result_get v ''r2'' NInf) = (\<lambda>x. Num (?g x))"
    by (simp add: result_get_r2 fun_eq_iff)
  have sel: "select_best_model results code ''r2'' = Some (model_name (snd ?best))"
    using select_max_unfold[OF pr r2_not_listed] by (simp only: key)
  have mem: "?best \<in> set (kv # kvs)" by (rule py_max_from_mem)
  have "\<forall>x \<in> set (kv # kvs). ?g x \<noteq> NaN" using nn pr by auto
  then have greatest: "\<forall>x \<in> set (kv # kvs). fle (?g x) (?g ?best)"
    by (rule py_max_from_greatest)
  show ?thesis
    unfolding pr using sel mem greatest
    by (intro bexI[of _ ?best]) (auto simp: case_prod_beta)
qed

lemma startswith_append: "startswith (pre @ rest) pre"
  by (simp add: startswith_def)

lemma startswith_store_key: "startswith (store_key code m) (code @ ''_'')"
  using startswith_append[of "code @ ''_''" m] by (simp add: store_key_def)

lemma scenario_D:
  "select_best_model
     (dict_set (store_key code b)
        \<lparr>mae = m2, rmse = s2, mape = Fin 8.5, r2 = q2, model_name = b, unified_code = code\<rparr>
        (dict_set (store_key code a)
           \<lparr>mae = m1, rmse = s1, mape = Fin 12, r2 = q1, model_name = a, unified_code = code\<rparr> []))
     code ''mape'' = Some b"
proof (cases "store_key code a = store_key code b")
  case True
  then have "product_results (dict_set (store_key code b)
        \<lparr>mae = m2, rmse = s2, mape = Fin 8.5, r2 = q2, model_name = b, unified_code = code\<rparr>
        (dict_set (store_key code a)
           \<lparr>mae = m1, rmse = s1, mape = Fin 12, r2 = q1, model_name = a, unified_code = code\<rparr> [])) code
     = [(store_key code b, \<lparr>mae = m2, rmse = s2, mape = Fin 8.5, r2 = q2, model_name = b, unified_code = code\<rparr>)]"
    by (simp add: product_results_def startswith_store_key)
  from select_min_unfold[OF this mape_listed] show ?thesis by simp
next
  case False
  then have "product_results (dict_set (store_key code b)
        \<lparr>mae = m2, rmse = s2, mape = Fin 8.5, r2 = q2, model_name = b, unified_code = code\<rparr>
        (dict_set (store_key code a)
           \<lparr>mae = m1, rmse = s1, mape = Fin 12, r2 = q1, model_name = a, unified_code = code\<rparr> [])) code
     = [(store_key code a, \<lparr>mae = m1, rmse = s1, mape = Fin 12, r2 = q1, model_name = a, unified_code = code\<rparr>),
        (store_key code b, \<lparr>mae = m2, rmse = s2, mape = Fin 8.5, r2 = q2, model_name = b, unified_code = code\<rparr>)]"
    by (simp add: product_results_def startswith_store_key)
  from select_min_unfold[OF this mape_listed] show ?thesis by (simp add: result_get_mape)
qed

subsection \<open>Unscoreable evaluations\<close>

text \<open>
  Claim C4.  When no point is left after both sequences are cut to their common length and
  the points with a non-finite or non-positive actual value or a non-finite predicted
  value are dropped, \<open>evaluate_model\<close> returns the sentinel metrics: mae, rmse and mape
  are plus infinity and r2 is minus infinity.
\<close>

theorem evaluate_model_no_valid_points:
  assumes "filter (\<lambda>(t, p). isfinite t \<and> isfinite p \<and> fgt t (Fin 0))
             (zip (take (min (length y_true) (length y_pred)) y_true)
                  (take (min (length y_true) (length y_pred)) y_pred)) = []"
  shows "fst (evaluate_model results y_true y_pred model_nm code)
           = Unscored \<lparr>mae = PInf, rmse = PInf, mape = PInf, r2 = NInf\<rparr>"
proof -
  have m: "mask = (\<lambda>(t, p). isfinite t \<and> isfinite p \<and> fgt t (Fin 0))"
    by (auto simp: mask_def fun_eq_iff)
  show ?thesis
    using assms by (simp add: evaluate_model_def Let_def m worst_metrics_def)
qed

theorem evaluate_model_no_valid_points_witness:
  "filter (\<lambda>(t, p). isfinite t \<and> isfinite p \<and> fgt t (Fin 0))
     (zip (take (min (length [Fin 0, NaN, Fin 5, Fin (-2), Fin 7]) (length [Fin 1, Fin 2, PInf, Fin 3]))
             [Fin 0, NaN, Fin 5, Fin (-2), Fin 7])
          (take (min (length [Fin 0, NaN, Fin 5, Fin (-2), Fin 7]) (length [Fin 1, Fin 2, PInf, Fin 3]))
             [Fin 1, Fin 2, PInf, Fin 3])) = [] \<and>
   fst (evaluate_model [] [Fin 0, NaN, Fin 5, Fin (-2), Fin 7] [Fin 1, Fin 2, PInf, Fin 3] ''Prophet'' ''P1'')
     = Unscored \<lparr>mae = PInf, rmse = PInf, mape = PInf, r2 = NInf\<rparr>"
proof -
  have h: "filter (\<lambda>(t, p). isfinite t \<and> isfinite p \<and> fgt t (Fin 0))
     (zip (take (min (length [Fin 0, NaN, Fin 5, Fin (-2), Fin 7]) (length [Fin 1, Fin 2, PInf, Fin 3]))
             [Fin 0, NaN, Fin 5, Fin (-2), Fin 7])
          (take (min (length [Fin 0, NaN, Fin 5, Fin (-2), Fin 7]) (length [Fin 1, Fin 2, PInf, Fin 3]))
             [Fin 1, Fin 2, PInf, Fin 3])) = []"
    by (simp add: fgt_def)
  show ?thesis
    using h evaluate_model_no_valid_points[OF h, of "[]" "''Prophet''" "''P1''"] by blast
qed

subsection \<open>The result store\<close>

lemma evaluate_model_unscored:
  assumes "filter mask (zip (take (min (length y_true) (length y_pred)) y_true)
                            (take (min (length y_true) (length y_pred)) y_pred)) = []"
  shows "evaluate_model results y_true y_pred model_nm code = (Unscored worst_metrics, results)"
  using assms by (simp add: evaluate_model_def Let_def)

lemma evaluate_model_scored:
  assumes "filter mask (zip (take (min (length y_true) (length y_pred)) y_true)
                            (take (min (length y_true) (length y_pred)) y_pred)) \<noteq> []"
  shows "\<exists>r. model_name r = model_nm \<and> unified_code r = code \<and>
             evaluate_model results y_true y_pred model_nm code
               = (Scored r, dict_set (store_key code model_nm) r results)"
proof -
  have "y_true \<noteq> [] \<and> y_pred \<noteq> []" using assms by auto
  then show ?thesis
    using assms by (simp add: evaluate_model_def Let_def)
qed

lemma set_dict_set: "set (dict_set k v kvs) \<subseteq> insert (k, v) (set kvs)"
  by (induction kvs) (auto split: if_splits)

lemma evaluate_model_store_shape:
  "snd (evaluate_model results y_true y_pred model_nm code) = results \<or>
   (\<exists>r. (mae r \<noteq> NaN \<and> rmse r \<noteq> NaN \<and> mape r \<noteq> NaN \<and> r2 r \<noteq> NaN) \<and>
        snd (evaluate_model results y_true y_pred model_nm code)
          = dict_set (store_key code model_nm) r results)"
proof (cases "length y_true = 0 \<or> length y_pred = 0")
  case True
  then show ?thesis by (simp add: evaluate_model_def)
next
  case c1: False
  show ?thesis
  proof (cases "length (filter mask (zip (take (min (length y_true) (length y_pred)) y_true)
                            (take (min (length y_true) (length y_pred)) y_pred))) = 0")
    case True
    then show ?thesis using c1 by (simp add: evaluate_model_def Let_def)
  next
    case c2: False
    show ?thesis
      apply (simp only: evaluate_model_def Let_def if_not_P[OF c1] if_not_P[OF c2] snd_conv)
      apply (rule disjI2, rule exI, rule conjI[rotated], rule refl)
      apply simp
      done
  qed
qed

lemma evaluate_model_stores_no_nan:
  assumes "\<forall>(k, r) \<in> set results. mae r \<noteq> NaN \<and> rmse r \<noteq> NaN \<and> mape r \<noteq> NaN \<and> r2 r \<noteq> NaN"
  shows "\<forall>(k, r) \<in> set (snd (evaluate_model results y_true y_pred model_nm code)).
           mae r \<noteq> NaN \<and> rmse r \<noteq> NaN \<and> mape r \<noteq> NaN \<and> r2 r \<noteq> NaN"
proof -
  from evaluate_model_store_shape[of results y_true y_pred model_nm code]
  consider "snd (evaluate_model results y_true y_pred model_nm code) = results"
    | r where "mae r \<noteq> NaN \<and> rmse r \<noteq> NaN \<and> mape r \<noteq> NaN \<and> r2 r \<noteq> NaN"
        "snd (evaluate_model results y_true y_pred model_nm code)
          = dict_set (store_key code model_nm) r results"
    by blast
  then show ?thesis
  proof cases
    case 1
    then show ?thesis using assms by simp
  next
    case 2
    show ?thesis
      unfolding 2(2) using 2(1) assms set_dict_set[of "store_key code model_nm" r results]
      by fast
  qed
qed

text \<open>
  Claim C5, as stated, fails: a call with empty input, or with input none of whose points
  is valid, returns the sentinel metrics before the store is written.  Nothing is stored
  under the key, and a result stored earlier under the key stays as it was.
\<close>

theorem evaluate_model_unscored_not_stored:
  "map_of (snd (evaluate_model [] [] [] ''Prophet'' ''P1'')) (store_key ''P1'' ''Prophet'') = None \<and>
   map_of (snd (evaluate_model [] [Fin 0, NaN] [Fin 3, Fin 4] ''Prophet'' ''P1'')) (store_key ''P1'' ''Prophet'') = None \<and>
   fst (evaluate_model
          [(''P1_Prophet'', \<lparr>mae = Fin 1, rmse = Fin 1, mape = Fin 5, r2 = Fin 0, model_name = ''Prophet'', unified_code = ''P1''\<rparr>)]
          [Fin 0, NaN] [Fin 3, Fin 4] ''Prophet'' ''P1'') = Unscored worst_metrics \<and>
   map_of (snd (evaluate_model
          [(''P1_Prophet'', \<lparr>mae = Fin 1, rmse = Fin 1, mape = Fin 5, r2 = Fin 0, model_name = ''Prophet'', unified_code = ''P1''\<rparr>)]
          [Fin 0, NaN] [Fin 3, Fin 4] ''Prophet'' ''P1'')) (store_key ''P1'' ''Prophet'')
     = Some \<lparr>mae = Fin 1, rmse = Fin 1, mape = Fin 5, r2 = Fin 0, model_name = ''Prophet'', unified_code = ''P1''\<rparr>"
  by (simp add: evaluate_model_def mask_def fgt_def store_key_def)

text \<open>
  Claim C5, amended.  A call of \<open>evaluate_model\<close> whose input has at least one valid
  comparison point stores the result it returns under the key of the product key and the
  model name, in place of any result stored there before, and changes no other key.  A call
  with empty input or with no valid point returns the sentinel metrics and leaves the
  store as it was.
\<close>

theorem evaluate_model_store:
  "evaluate_model results y_true y_pred model_nm code = (ret, results') \<Longrightarrow>
    (if filter mask (zip (take (min (length y_true) (length y_pred)) y_true)
                         (take (min (length y_true) (length y_pred)) y_pred)) = []
     then ret = Unscored worst_metrics \<and> results' = results
     else (\<exists>r. ret = Scored r \<and> model_name r = model_nm \<and> unified_code r = code \<and>
              map_of results' (store_key code model_nm) = Some r \<and>
              (\<forall>k. k \<noteq> store_key code model_nm \<longrightarrow> map_of results' k = map_of results k)))"
proof (cases "filter mask (zip (take (min (length y_true) (length y_pred)) y_true)
                            (take (min (length y_true) (length y_pred)) y_pred)) = []")
  case True
  assume "evaluate_model results y_true y_pred model_nm code = (ret, results')"
  then show ?thesis using evaluate_model_unscored[OF True, of results model_nm code] True by simp
next
  case False
  assume ev: "evaluate_model results y_true y_pred model_nm code = (ret, results')"
  from evaluate_model_scored[OF False, of model_nm code results]
  obtain r where r: "model_name r = model_nm" "unified_code r = code"
    "evaluate_model results y_true y_pred model_nm code
               = (Scored r, dict_set (store_key code model_nm) r results)" by blast
  from r(3) ev have "ret = Scored r" "results' = dict_set (store_key code model_nm) r results"
    by simp_all
  then show ?thesis using False r(1,2) by (simp add: map_of_dict_set)
qed

theorem evaluate_model_store_witness:
  "filter mask (zip (take (min (length [Fin 10, Fin 20]) (length [Fin 11, Fin 22, Fin 7])) [Fin 10, Fin 20])
                    (take (min (length [Fin 10, Fin 20]) (length [Fin 11, Fin 22, Fin 7])) [Fin 11, Fin 22, Fin 7])) \<noteq> [] \<and>
   (\<exists>r. fst (evaluate_model
          [(''P1_arima'', \<lparr>mae = Fin 1, rmse = Fin 1, mape = Fin 5, r2 = Fin 0, model_name = ''arima'', unified_code = ''P1''\<rparr>)]
          [Fin 10, Fin 20] [Fin 11, Fin 22, Fin 7] ''arima'' ''P1'') = Scored r \<and>
        mape r = Fin 10 \<and>
        map_of (snd (evaluate_model
          [(''P1_arima'', \<lparr>mae = Fin 1, rmse = Fin 1, mape = Fin 5, r2 = Fin 0, model_name = ''arima'', unified_code = ''P1''\<rparr>)]
          [Fin 10, Fin 20] [Fin 11, Fin 22, Fin 7] ''arima'' ''P1'')) ''P1_arima'' = Some r)"
proof -
  let ?st = "[(''P1_arima'', \<lparr>mae = Fin 1, rmse = Fin 1, mape = Fin 5, r2 = Fin 0, model_name = ''arima'', unified_code = ''P1''\<rparr>)]"
  let ?E = "evaluate_model ?st [Fin 10, Fin 20] [Fin 11, Fin 22, Fin 7] ''arima'' ''P1''"
  have h: "filter mask (zip (take (min (length [Fin 10, Fin 20]) (length [Fin 11, Fin 22, Fin 7])) [Fin 10, Fin 20])
                    (take (min (length [Fin 10, Fin 20]) (length [Fin 11, Fin 22, Fin 7])) [Fin 11, Fin 22, Fin 7])) \<noteq> []"
    by (simp add: mask_def fgt_def)
  have e: "?E = (fst ?E, snd ?E)" by simp
  have k: "store_key ''P1'' ''arima'' = ''P1_arima''" by (simp add: store_key_def)
  have m: "\<And>r. fst ?E = Scored r \<Longrightarrow> mape r = Fin 10"
    by (simp add: evaluate_model_def mask_def fgt_def Let_def mean_def)
  from evaluate_model_store[OF e] h k
  obtain r where "fst ?E = Scored r" "map_of (snd ?E) ''P1_arima'' = Some r" 
    by (auto simp only: if_False)
  then show ?thesis using h m by blast
qed

subsection \<open>Products whose keys share a prefix\<close>

text \<open>
  When no product key holds an underscore, the scan keeps the entries of the product and no
  other entry.
\<close>

lemma underscore_prefix_unique:
  assumes a: "CHR ''_'' \<notin> set p1" and b: "CHR ''_'' \<notin> set p2"
    and e: "p1 @ CHR ''_'' # rest1 = p2 @ CHR ''_'' # rest2"
  shows "p1 = p2"
  using assms
proof (induction p1 arbitrary: p2)
  case Nil
  then show ?case by (cases p2) auto
next
  case (Cons c cs)
  then show ?case by (cases p2) auto
qed

lemma startswith_other_product:
  assumes a: "CHR ''_'' \<notin> set p1" and b: "CHR ''_'' \<notin> set p2"
    and s: "startswith (store_key p2 m) (p1 @ ''_'')"
  shows "p1 = p2"
proof -
  from s have "take (length (p1 @ ''_'')) (p2 @ ''_'' @ m) = p1 @ ''_''"
    by (simp add: startswith_def store_key_def)
  then have "p2 @ ''_'' @ m = (p1 @ ''_'') @ drop (length (p1 @ ''_'')) (p2 @ ''_'' @ m)"
    by (metis append_take_drop_id)
  then have "p1 @ CHR ''_'' # drop (length (p1 @ ''_'')) (p2 @ ''_'' @ m) = p2 @ CHR ''_'' # m"
    by simp
  then show ?thesis using a b by (rule underscore_prefix_unique[rotated 2])
qed

lemma product_results_by_code:
  assumes wf: "\<forall>(k, r) \<in> set results. k = store_key (unified_code r) (model_name r) \<and>
                   CHR ''_'' \<notin> set (unified_code r)"
    and c: "CHR ''_'' \<notin> set code"
  shows "product_results results code = filter (\<lambda>(k, r). unified_code r = code) results"
  unfolding product_results_def
proof (rule filter_cong[OF refl])
  fix kr assume m: "kr \<in> set results"
  obtain k r where kr: "kr = (k, r)" by (cases kr)
  have k: "k = store_key (unified_code r) (model_name r)"
    and u: "CHR ''_'' \<notin> set (unified_code r)"
    using wf m kr by auto
  have "startswith k (code @ ''_'') = (unified_code r = code)"
  proof
    assume "startswith k (code @ ''_'')"
    then show "unified_code r = code"
      using startswith_other_product[OF c u] k by auto
  next
    assume "unified_code r = code"
    then show "startswith k (code @ ''_'')"
      using startswith_store_key k by auto
  qed
  then show "(case kr of (k, v) \<Rightarrow> startswith k (code @ ''_''))
           = (case kr of (k, r) \<Rightarrow> unified_code r = code)"
    by (simp add: kr)
qed

lemma select_best_model_by_code:
  assumes wf: "\<forall>(k, r) \<in> set results. k = store_key (unified_code r) (model_name r) \<and>
                   CHR ''_'' \<notin> set (unified_code r)"
    and c: "CHR ''_'' \<notin> set code"
  shows "(filter (\<lambda>(k, r). unified_code r = code) results = []
            \<longrightarrow> select_best_model results code metric = None) \<and>
         (filter (\<lambda>(k, r). unified_code r = code) results \<noteq> [] \<and>
          (metric, fld) \<in> {(''mae'', mae), (''rmse'', rmse), (''mape'', mape)} \<and>
          (\<forall>(k, r) \<in> set (filter (\<lambda>(k, r). unified_code r = code) results). fld r \<noteq> NaN) \<longrightarrow>
            (\<exists>(k, r) \<in> set (filter (\<lambda>(k, r). unified_code r = code) results).
                select_best_model results code metric = Some (model_name r) \<and>
                (\<forall>(k', r') \<in> set (filter (\<lambda>(k, r). unified_code r = code) results).
                    fle (fld r) (fld r')))) \<and>
         (filter (\<lambda>(k, r). unified_code r = code) results \<noteq> [] \<and>
          (\<forall>(k, r) \<in> set (filter (\<lambda>(k, r). unified_code r = code) results). r2 r \<noteq> NaN) \<longrightarrow>
            (\<exists>(k, r) \<in> set (filter (\<lambda>(k, r). unified_code r = code) results).
                select_best_model results code ''r2'' = Some (model_name r) \<and>
                (\<forall>(k', r') \<in> set (filter (\<lambda>(k, r). unified_code r = code) results).
                    fle (r2 r') (r2 r))))"
  unfolding product_results_by_code[OF wf c, symmetric]
  using select_none[of results code metric] select_min[of results code metric fld]
    select_max[of results code]
  by blast

text \<open>
  Claim C3.  The selector is meant to return none when no result is stored for the product,
  and otherwise the model whose stored value of the metric is least (\<open>mae\<close>, \<open>rmse\<close>,
  \<open>mape\<close>) or greatest (\<open>r2\<close>) among the results stored for that product.  It does so on
  the entries its scan keeps (\<open>select_none\<close>, \<open>select_min\<close>, \<open>select_max\<close>, and
  \<open>scenario_D\<close> for model A at mape 12.0 and model B at mape 8.5), and the scan keeps the
  entries of the product when no product key holds an underscore
  (\<open>select_best_model_by_code\<close>).  With the product keys \<open>SKU\<close> and \<open>SKU_2\<close> it does not.
  After one evaluation of \<open>Prophet\<close> for \<open>SKU_2\<close> no stored result has the product key
  \<open>SKU\<close>, yet the selection for \<open>SKU\<close> returns \<open>Prophet\<close> and not none.  And when \<open>arima\<close>
  has been evaluated for \<open>SKU\<close> as well, the only result stored for \<open>SKU\<close> is the one of
  \<open>arima\<close>, yet the selection for \<open>SKU\<close> on \<open>mape\<close> returns \<open>Prophet\<close>.
\<close>

theorem select_best_model_other_product:
  "filter (\<lambda>(k, r). unified_code r = ''SKU'')
     (snd (evaluate_model [] [Fin 10, Fin 20] [Fin 10, Fin 20] ''Prophet'' ''SKU_2'')) = [] \<and>
   select_best_model
     (snd (evaluate_model [] [Fin 10, Fin 20] [Fin 10, Fin 20] ''Prophet'' ''SKU_2''))
     ''SKU'' ''mape'' = Some ''Prophet'' \<and>
   map (\<lambda>(k, r). (model_name r, mape r))
     (filter (\<lambda>(k, r). unified_code r = ''SKU'')
        (snd (evaluate_model (snd (evaluate_model [] [Fin 10, Fin 20] [Fin 11, Fin 22] ''arima'' ''SKU''))
                [Fin 10, Fin 20] [Fin 10, Fin 20] ''Prophet'' ''SKU_2'')))
     = [(''arima'', Fin 10)] \<and>
   select_best_model
     (snd (evaluate_model (snd (evaluate_model [] [Fin 10, Fin 20] [Fin 11, Fin 22] ''arima'' ''SKU''))
             [Fin 10, Fin 20] [Fin 10, Fin 20] ''Prophet'' ''SKU_2''))
     ''SKU'' ''mape'' = Some ''Prophet''"
  by (simp add: evaluate_model_def mask_def fgt_def Let_def select_best_model_def product_results_def
        startswith_def store_key_def mean_def result_get_mape)

text \<open>
  Claim C10.  The selection for a product is meant to see that product's results only.
  The store key is the product key, an underscore and the model name, and the scan keeps
  every key that starts with the product key and an underscore.  With the product keys
  \<open>A\<close> and \<open>A_B\<close> the scan for \<open>A\<close> keeps the results of \<open>A_B\<close>: the selection for \<open>A\<close>
  returns a model although \<open>A\<close> was never evaluated, and the model selected for \<open>A\<close>
  changes from \<open>arima\<close> to \<open>Prophet\<close> when \<open>Prophet\<close> is evaluated for \<open>A_B\<close>.
\<close>

theorem select_best_model_prefix_collision:
  "select_best_model (snd (evaluate_model [] [Fin 10, Fin 20] [Fin 10, Fin 20] ''Prophet'' ''A_B''))
      ''A'' ''mape'' = Some ''Prophet'' \<and>
   select_best_model (snd (evaluate_model [] [Fin 10, Fin 20] [Fin 11, Fin 22] ''arima'' ''A''))
      ''A'' ''mape'' = Some ''arima'' \<and>
   select_best_model
     (snd (evaluate_model (snd (evaluate_model [] [Fin 10, Fin 20] [Fin 11, Fin 22] ''arima'' ''A''))
             [Fin 10, Fin 20] [Fin 10, Fin 20] ''Prophet'' ''A_B''))
      ''A'' ''mape'' = Some ''Prophet''"
  by (simp add: evaluate_model_def mask_def fgt_def Let_def select_best_model_def product_results_def startswith_def store_key_def mean_def result_get_mape)

section \<open>Properties of the shipment calculator\<close>

subsection \<open>Grouping, and the rows of one product and month\<close>

lemma groupby_sum_keys: "map fst (groupby_sum key val rows) = sort (remdups (map key rows))"
  by (simp add: groupby_sum_def comp_def)

lemma groupby_sum_distinct: "distinct (map fst (groupby_sum key val rows))"
  by (simp add: groupby_sum_keys)

lemma groupby_sum_nonneg:
  assumes "\<forall>r \<in> set rows. 0 \<le> val r" and "(k, v) \<in> set (groupby_sum key val rows)"
  shows "0 \<le> v"
proof -
  from assms(2) have "v = sum_list (map val (filter (\<lambda>r. key r = k) rows))"
    by (auto simp: groupby_sum_def)
  moreover have "0 \<le> sum_list (map val (filter (\<lambda>r. key r = k) rows))"
    using assms(1) by (intro sum_list_nonneg) auto
  ultimately show ?thesis by simp
qed

lemma latest_stocks_subset: "set (latest_stocks stocks) \<subseteq> set stocks"
  by (auto simp: latest_stocks_def)

lemma product_stocks_nonneg:
  assumes "\<forall>r \<in> set stocks. 0 \<le> st_stock r"
    and "(w, s) \<in> set (product_stocks (stocks_by_product_warehouse (latest_stocks stocks)) code)"
  shows "0 \<le> s"
proof -
  from assms(2) have "((code, w), s) \<in> set (stocks_by_product_warehouse (latest_stocks stocks))"
    by (auto simp: product_stocks_def)
  then have "((code, w), s) \<in> set (groupby_sum (\<lambda>r. (st_unified_code r, st_warehouse r)) st_stock (latest_stocks stocks))"
    by (auto simp: stocks_by_product_warehouse_def split: if_splits)
  moreover have "\<forall>r \<in> set (latest_stocks stocks). 0 \<le> st_stock r"
    using assms(1) latest_stocks_subset by blast
  ultimately show ?thesis by (rule groupby_sum_nonneg[rotated])
qed

lemma product_stocks_distinct:
  "distinct (map fst (product_stocks (stocks_by_product_warehouse (latest_stocks stocks)) code))"
proof -
  let ?g = "stocks_by_product_warehouse (latest_stocks stocks)"
  have d: "distinct (map fst ?g)"
    by (simp add: stocks_by_product_warehouse_def groupby_sum_distinct)
  have "distinct (map fst (filter (\<lambda>((c, w), stock). c = code) ?g))"
    using d by (rule distinct_map_filter)
  moreover have "map fst (product_stocks ?g code)
      = map (snd \<circ> fst) (filter (\<lambda>((c, w), stock). c = code) ?g)"
    by (simp add: product_stocks_def case_prod_beta comp_def)
  moreover have "inj_on snd (set (map fst (filter (\<lambda>((c, w), stock). c = code) ?g)))"
    by (auto simp: inj_on_def)
  ultimately show ?thesis
    by (metis distinct_map map_map)
qed

lemma forecast_monthly_distinct:
  "distinct (map (\<lambda>r. (fc_date r, fc_unified_code r)) (forecast_monthly forecast))"
proof -
  let ?g = "groupby_sum (\<lambda>r. (to_period_M (fc_date r), fc_unified_code r)) fc_quantity forecast"
  let ?F = "\<lambda>kc :: (nat \<times> nat) \<times> string. (to_timestamp (fst kc), snd kc)"
  have eq: "map (\<lambda>r. (fc_date r, fc_unified_code r)) (forecast_monthly forecast)
      = map ?F (map fst ?g)"
    by (simp add: forecast_monthly_def case_prod_beta comp_def)
  have "inj ?F"
    by (auto simp: inj_on_def to_timestamp_def prod_eq_iff)
  then have "inj_on ?F (set (map fst ?g))"
    by (rule inj_on_subset) simp
  moreover have "distinct (map fst ?g)" by (rule groupby_sum_distinct)
  ultimately have "distinct (map ?F (map fst ?g))"
    by (simp only: distinct_map)
  then show ?thesis by (simp only: eq)
qed

lemma filter_concat_tagged:
  assumes "distinct (map k xs)" and "x \<in> set xs"
    and "\<And>y r. y \<in> set xs \<Longrightarrow> r \<in> set (f y) \<Longrightarrow> tag r = k y"
  shows "filter (\<lambda>r. tag r = k x) (concat (map f xs)) = f x"
  using assms
proof (induction xs)
  case Nil
  then show ?case by simp
next
  case (Cons y ys)
  show ?case
  proof (cases "y = x")
    case True
    have a: "filter (\<lambda>r. tag r = k x) (f y) = f y"
      using Cons.prems(3)[of y] True by (auto simp: filter_id_conv)
    have "\<And>z r. z \<in> set ys \<Longrightarrow> r \<in> set (f z) \<Longrightarrow> tag r \<noteq> k x"
      using Cons.prems(1,3) True by (metis distinct.simps(2) image_eqI list.set_intros(2) list.set_map list.simps(9))
    then have b: "filter (\<lambda>r. tag r = k x) (concat (map f ys)) = []"
      by (auto simp: filter_empty_conv)
    show ?thesis using a b True by simp
  next
    case False
    then have xin: "x \<in> set ys" using Cons.prems(2) by simp
    have ky: "k y \<noteq> k x" using Cons.prems(1) xin by (auto simp: image_iff)
    have a: "filter (\<lambda>r. tag r = k x) (f y) = []"
      using Cons.prems(3)[of y] ky by (auto simp: filter_empty_conv)
    have b: "filter (\<lambda>r. tag r = k x) (concat (map f ys)) = f x"
      using Cons.prems xin by (intro Cons.IH) auto
    show ?thesis using a b by simp
  qed
qed

lemma month_shipments_tag:
  "r \<in> set (month_shipments cov ps row) \<Longrightarrow> sh_date r = fc_date row \<and> sh_unified_code r = fc_unified_code row"
  by (auto simp: month_shipments_def Let_def split: if_splits)

lemma calculate_shipments_month:
  assumes "row \<in> set (forecast_monthly forecast)"
  shows "filter (\<lambda>r. sh_date r = fc_date row \<and> sh_unified_code r = fc_unified_code row)
           (calculate_shipments cov forecast stocks)
         = month_shipments cov
             (product_stocks (stocks_by_product_warehouse (latest_stocks stocks)) (fc_unified_code row)) row"
proof -
  let ?k = "\<lambda>r. (fc_date r, fc_unified_code r)"
  let ?tag = "\<lambda>r. (sh_date r, sh_unified_code r)"
  let ?f = "\<lambda>row. month_shipments cov
             (product_stocks (stocks_by_product_warehouse (latest_stocks stocks)) (fc_unified_code row)) row"
  have "filter (\<lambda>r. ?tag r = ?k row) (concat (map ?f (forecast_monthly forecast))) = ?f row"
    using forecast_monthly_distinct assms
    by (rule filter_concat_tagged) (auto dest: month_shipments_tag)
  then show ?thesis by (simp add: calculate_shipments_def Let_def)
qed

subsection \<open>The loop body\<close>





lemma month_shipments_balancing:
  assumes ne: "ps \<noteq> []"
    and cur: "cur = sum_list (map snd ps)" and req: "req = fc_quantity row * cov"
    and ge: "req \<le> cur"
  shows "map (\<lambda>r. (sh_warehouse r, sh_shipment r)) (month_shipments cov ps row)
           = map (\<lambda>(w, s). (w, req / real (length ps) - s))
                 (filter (\<lambda>(w, s). s < req / real (length ps)) ps)"
proof -
  have nlt: "\<not> cur < req" using ge by simp
  show ?thesis
    using ne nlt unfolding month_shipments_def Let_def cur[symmetric] req[symmetric]
    by (simp add: comp_def case_prod_beta)
qed


subsection \<open>The example tables, evaluated\<close>

lemma example_forecast_monthly:
  "forecast_monthly example_forecast =
    [\<lparr>fc_date = (2024, 3, 1), fc_unified_code = ''P'', fc_quantity = 100\<rparr>,
     \<lparr>fc_date = (2024, 3, 1), fc_unified_code = ''R'', fc_quantity = 40\<rparr>,
     \<lparr>fc_date = (2024, 3, 1), fc_unified_code = ''Z'', fc_quantity = 40\<rparr>,
     \<lparr>fc_date = (2024, 4, 1), fc_unified_code = ''P'', fc_quantity = 10\<rparr>]"
  by code_simp

lemma example_stocks_by_product_warehouse:
  "stocks_by_product_warehouse (latest_stocks example_stocks) =
    [((''P'', ''W1''), 30), ((''P'', ''W2''), 70), ((''P'', ''W3''), 0),
     ((''Z'', ''W1''), 0), ((''Z'', ''W2''), 0)]"
  by code_simp

lemma example_product_stocks_P:
  "product_stocks (stocks_by_product_warehouse (latest_stocks example_stocks)) ''P''
     = [(''W1'', 30), (''W2'', 70), (''W3'', 0)]"
  unfolding example_stocks_by_product_warehouse by (simp add: product_stocks_def)


lemma example_stocks_nonneg: "\<forall>r \<in> set example_stocks. 0 \<le> st_stock r"
  by (simp add: example_stocks_def)

subsection \<open>Distributing a shortfall\<close>




subsection \<open>Balancing when the total suffices\<close>

text \<open>
  Claim C8.  Take a row of the monthly forecast for which the latest stock snapshot has at
  least one record of the product and the current total is at least the required total.
  The warehouses of the product are pairwise distinct, and the rows emitted for this
  product and month are, in order, one row for each warehouse whose stock is strictly below
  the even share required total / number of warehouses, with shipment even share minus
  stock; a warehouse at or above the even share has no row.
\<close>

theorem calculate_shipments_balancing:
  assumes row: "row \<in> set (forecast_monthly forecast)"
    and ps: "ps = product_stocks (stocks_by_product_warehouse (latest_stocks stocks)) (fc_unified_code row)"
    and ne: "ps \<noteq> []"
    and req: "required_total = fc_quantity row * coverage_coefficient"
    and cur: "current_total = sum_list (map snd ps)"
    and ge: "required_total \<le> current_total"
    and avg: "even_share = required_total / real (length ps)"
    and out: "out = filter (\<lambda>r. sh_date r = fc_date row \<and> sh_unified_code r = fc_unified_code row)
                       (calculate_shipments coverage_coefficient forecast stocks)"
  shows "distinct (map fst ps) \<and>
         map (\<lambda>r. (sh_warehouse r, sh_shipment r)) out
           = map (\<lambda>(w, s). (w, even_share - s)) (filter (\<lambda>(w, s). s < even_share) ps)"
proof -
  have o: "out = month_shipments coverage_coefficient ps row"
    unfolding out ps by (rule calculate_shipments_month[OF row])
  have d: "distinct (map fst ps)" unfolding ps by (rule product_stocks_distinct)
  have "map (\<lambda>r. (sh_warehouse r, sh_shipment r)) out
           = map (\<lambda>(w, s). (w, even_share - s)) (filter (\<lambda>(w, s). s < even_share) ps)"
    unfolding o avg using ne cur req ge by (rule month_shipments_balancing)
  then show ?thesis using d by simp
qed

theorem calculate_shipments_balancing_witness:
  "\<lparr>fc_date = (2024, 4, 1), fc_unified_code = ''P'', fc_quantity = 10\<rparr> \<in> set (forecast_monthly example_forecast) \<and>
   product_stocks (stocks_by_product_warehouse (latest_stocks example_stocks)) ''P''
     = [(''W1'', 30), (''W2'', 70), (''W3'', 0)] \<and>
   map (\<lambda>r. (sh_warehouse r, sh_shipment r))
     (filter (\<lambda>r. sh_date r = (2024, 4, 1) \<and> sh_unified_code r = ''P'')
        (calculate_shipments (3/2) example_forecast example_stocks)) = [(''W3'', 5)]"
proof -
  let ?P = "\<lparr>fc_date = (2024, 4, 1), fc_unified_code = ''P'', fc_quantity = 10\<rparr>"
  have rP: "?P \<in> set (forecast_monthly example_forecast)"
    unfolding example_forecast_monthly by simp
  have P: "[(''W1'', 30), (''W2'', 70), (''W3'', 0 :: real)]
      = product_stocks (stocks_by_product_warehouse (latest_stocks example_stocks)) (fc_unified_code ?P)"
    by (simp add: example_product_stocks_P)
  have cP: "(100 :: real) = sum_list (map snd [(''W1'', 30), (''W2'', 70), (''W3'', 0 :: real)])"
    by simp
  have qP: "(15 :: real) = fc_quantity ?P * (3/2)" by simp
  have aP: "(5 :: real) = 15 / real (length [(''W1'', 30), (''W2'', 70), (''W3'', 0 :: real)])" by simp
  from calculate_shipments_balancing[OF rP P _ qP cP _ aP refl]
  have "map (\<lambda>r. (sh_warehouse r, sh_shipment r))
     (filter (\<lambda>r. sh_date r = (2024, 4, 1) \<and> sh_unified_code r = ''P'')
        (calculate_shipments (3/2) example_forecast example_stocks)) = [(''W3'', 5)]"
    by simp
  then show ?thesis using rP example_product_stocks_P by blast
qed

section \<open>Properties of the constraint engine\<close>

subsection \<open>Box rounding\<close>

lemma box_row_idem:
  assumes "box_size_for bs (sh_unified_code r) \<noteq> 0"
  shows "box_row bs (box_row bs r) = box_row bs r"
  using assms by (simp add: box_row_def Let_def)

lemma box_row_props:
  assumes "0 < box_size_for bs (sh_unified_code r)"
  shows "sh_shipment (box_row bs r)
           = of_int \<lceil>sh_shipment r / real_of_int (box_size_for bs (sh_unified_code r))\<rceil>
               * real_of_int (box_size_for bs (sh_unified_code r))"
    and "sh_shipment r \<le> sh_shipment (box_row bs r)"
    and "\<exists>k::int. sh_shipment (box_row bs r) = of_int k * real_of_int (box_size_for bs (sh_unified_code r))"
    and "sh_boxes (box_row bs r)
           = Some (sh_shipment (box_row bs r) / real_of_int (box_size_for bs (sh_unified_code r)))"
    and "box_row bs r = r\<lparr>sh_shipment := sh_shipment (box_row bs r), sh_boxes := sh_boxes (box_row bs r)\<rparr>"
proof -
  let ?b = "real_of_int (box_size_for bs (sh_unified_code r))"
  have b: "0 < ?b" using assms by simp
  show "sh_shipment (box_row bs r) = of_int \<lceil>sh_shipment r / ?b\<rceil> * ?b"
    by (simp add: box_row_def Let_def)
  have "sh_shipment r / ?b \<le> of_int \<lceil>sh_shipment r / ?b\<rceil>" by (rule le_of_int_ceiling)
  then have "sh_shipment r \<le> of_int \<lceil>sh_shipment r / ?b\<rceil> * ?b"
    using b by (simp only: pos_divide_le_eq)
  then show "sh_shipment r \<le> sh_shipment (box_row bs r)"
    by (simp add: box_row_def Let_def)
  show "\<exists>k::int. sh_shipment (box_row bs r) = of_int k * ?b"
    by (rule exI[of _ "\<lceil>sh_shipment r / ?b\<rceil>"]) (simp add: box_row_def Let_def)
  show "sh_boxes (box_row bs r) = Some (sh_shipment (box_row bs r) / ?b)"
    using b by (simp add: box_row_def Let_def)
  show "box_row bs r = r\<lparr>sh_shipment := sh_shipment (box_row bs r), sh_boxes := sh_boxes (box_row bs r)\<rparr>"
    by (simp add: box_row_def Let_def)
qed

lemma box_row_code: "sh_unified_code (box_row bs r) = sh_unified_code r"
  by (simp add: box_row_def Let_def)

text \<open>
  Claim C2.  The box size of a row is the entry of the box-size dict for the row's product,
  else the entry \<open>default\<close> of the dict, else 24 (the dict is the argument of the call, or
  the one of the object when the argument is absent).  For box sizes that are positive,
  the pass leaves the number and order of the rows, sets the shipment of every row to
  ceil(shipment / box size) * box size, which is at least the original shipment and an
  integer multiple of the box size, records boxes = rounded shipment / box size, changes
  no other column, and applying the pass again to its own output changes nothing.
\<close>

theorem apply_box_constraints_rounding:
  assumes bs: "bs = (case box_sizes of None \<Rightarrow> self_box_sizes | Some b \<Rightarrow> b)"
    and pos: "\<forall>r \<in> set shipments. 0 < box_size_for bs (sh_unified_code r)"
    and out: "out = apply_box_constraints self_box_sizes box_sizes shipments"
  shows "(\<forall>code. box_size_for bs code =
            (case bs code of Some b \<Rightarrow> b
             | None \<Rightarrow> (case bs ''default'' of Some b \<Rightarrow> b | None \<Rightarrow> 24))) \<and>
         length out = length shipments \<and>
         (\<forall>i < length shipments.
            sh_shipment (out ! i)
              = of_int \<lceil>sh_shipment (shipments ! i)
                         / real_of_int (box_size_for bs (sh_unified_code (shipments ! i)))\<rceil>
                * real_of_int (box_size_for bs (sh_unified_code (shipments ! i))) \<and>
            sh_shipment (shipments ! i) \<le> sh_shipment (out ! i) \<and>
            (\<exists>k::int. sh_shipment (out ! i)
                         = of_int k * real_of_int (box_size_for bs (sh_unified_code (shipments ! i)))) \<and>
            sh_boxes (out ! i)
              = Some (sh_shipment (out ! i)
                        / real_of_int (box_size_for bs (sh_unified_code (shipments ! i)))) \<and>
            out ! i = (shipments ! i)\<lparr>sh_shipment := sh_shipment (out ! i), sh_boxes := sh_boxes (out ! i)\<rparr>) \<and>
         apply_box_constraints self_box_sizes box_sizes out = out"
proof -
  have o: "out = map (box_row bs) shipments"
    unfolding out bs by (simp add: apply_box_constraints_def)
  have o2: "apply_box_constraints self_box_sizes box_sizes out = map (box_row bs) out"
    unfolding bs by (simp add: apply_box_constraints_def)
  have A: "\<forall>code. box_size_for bs code =
            (case bs code of Some b \<Rightarrow> b
             | None \<Rightarrow> (case bs ''default'' of Some b \<Rightarrow> b | None \<Rightarrow> 24))"
    unfolding box_size_for_def default_box_size_def by simp
  have B: "length out = length shipments" by (simp add: o)
  have C: "\<forall>i < length shipments.
            sh_shipment (out ! i)
              = of_int \<lceil>sh_shipment (shipments ! i)
                         / real_of_int (box_size_for bs (sh_unified_code (shipments ! i)))\<rceil>
                * real_of_int (box_size_for bs (sh_unified_code (shipments ! i))) \<and>
            sh_shipment (shipments ! i) \<le> sh_shipment (out ! i) \<and>
            (\<exists>k::int. sh_shipment (out ! i)
                         = of_int k * real_of_int (box_size_for bs (sh_unified_code (shipments ! i)))) \<and>
            sh_boxes (out ! i)
              = Some (sh_shipment (out ! i)
                        / real_of_int (box_size_for bs (sh_unified_code (shipments ! i)))) \<and>
            out ! i = (shipments ! i)\<lparr>sh_shipment := sh_shipment (out ! i), sh_boxes := sh_boxes (out ! i)\<rparr>"
  proof (intro allI impI)
    fix i assume i: "i < length shipments"
    then have p: "0 < box_size_for bs (sh_unified_code (shipments ! i))"
      using pos by simp
    have e: "out ! i = box_row bs (shipments ! i)" using i by (simp add: o)
    show "sh_shipment (out ! i)
              = of_int \<lceil>sh_shipment (shipments ! i)
                         / real_of_int (box_size_for bs (sh_unified_code (shipments ! i)))\<rceil>
                * real_of_int (box_size_for bs (sh_unified_code (shipments ! i))) \<and>
            sh_shipment (shipments ! i) \<le> sh_shipment (out ! i) \<and>
            (\<exists>k::int. sh_shipment (out ! i)
                         = of_int k * real_of_int (box_size_for bs (sh_unified_code (shipments ! i)))) \<and>
            sh_boxes (out ! i)
              = Some (sh_shipment (out ! i)
                        / real_of_int (box_size_for bs (sh_unified_code (shipments ! i)))) \<and>
            out ! i = (shipments ! i)\<lparr>sh_shipment := sh_shipment (out ! i), sh_boxes := sh_boxes (out ! i)\<rparr>"
      unfolding e using box_row_props[OF p] by blast
  qed
  have "\<forall>r \<in> set shipments. box_row bs (box_row bs r) = box_row bs r"
    using pos by (intro ballI box_row_idem) auto
  then have "map (box_row bs) out = out"
    unfolding o by simp
  then have D: "apply_box_constraints self_box_sizes box_sizes out = out"
    using o2 by simp
  show ?thesis using A B C D by blast
qed

theorem apply_box_constraints_rounding_witness:
  "list_all (\<lambda>r. 0 < box_size_for [''Q'' \<mapsto> 56] (sh_unified_code r)) example_shipments \<and>
   map (\<lambda>r. (sh_unified_code r, sh_shipment r, sh_boxes r))
       (apply_box_constraints [''Q'' \<mapsto> 56] None example_shipments)
     = [(''P'', 120, Some 5), (''Q'', 112, Some 2), (''R'', 48, Some 2)] \<and>
   apply_box_constraints [''Q'' \<mapsto> 56] None (apply_box_constraints [''Q'' \<mapsto> 56] None example_shipments)
     = apply_box_constraints [''Q'' \<mapsto> 56] None example_shipments"
proof -
  have bs: "[''Q'' \<mapsto> 56] = (case None of None \<Rightarrow> [''Q'' \<mapsto> 56] | Some b \<Rightarrow> b)"
    by simp
  have pos: "\<forall>r \<in> set example_shipments. 0 < box_size_for [''Q'' \<mapsto> 56] (sh_unified_code r)"
    by (simp add: example_shipments_def box_size_for_def default_box_size_def)
  have v: "map (\<lambda>r. (sh_unified_code r, sh_shipment r, sh_boxes r))
       (apply_box_constraints [''Q'' \<mapsto> 56] None example_shipments)
     = [(''P'', 120, Some 5), (''Q'', 112, Some 2), (''R'', 48, Some 2)]"
    by (simp add: example_shipments_def apply_box_constraints_def box_row_def box_size_for_def
          default_box_size_def Let_def)
  have pos': "list_all (\<lambda>r. 0 < box_size_for [''Q'' \<mapsto> 56] (sh_unified_code r)) example_shipments"
    using pos by (simp only: list_all_iff)
  show ?thesis
    using apply_box_constraints_rounding[OF bs pos refl] pos' v by blast
qed

subsection \<open>Withdrawn products, shipment side\<close>

lemma withdraw_map:
  "apply_shipment_withdraw_constraints shipments wl =
     map (\<lambda>r. if sh_unified_code r \<in> wd_unified_code ` set wl then r\<lparr>sh_shipment := 0\<rparr> else r) shipments"
  by (cases "wl = []") (simp_all add: apply_shipment_withdraw_constraints_def Let_def)

text \<open>
  Claim C7.  \<open>apply_shipment_withdraw_constraints\<close> reads no stock table.  It keeps the
  number and order of the rows; a row whose product is in the withdraw list comes out with
  shipment 0 and every other column as it was, every other row comes out unchanged; and
  applying the pass again to its output returns the output.
\<close>

theorem apply_shipment_withdraw_constraints_spec:
  assumes out: "out = apply_shipment_withdraw_constraints shipments withdraw_list"
  shows "length out = length shipments \<and>
         (\<forall>i < length shipments.
            (sh_unified_code (shipments ! i) \<in> wd_unified_code ` set withdraw_list
               \<longrightarrow> out ! i = (shipments ! i)\<lparr>sh_shipment := 0\<rparr>) \<and>
            (sh_unified_code (shipments ! i) \<notin> wd_unified_code ` set withdraw_list
               \<longrightarrow> out ! i = shipments ! i)) \<and>
         apply_shipment_withdraw_constraints out withdraw_list = out"
proof -
  have "apply_shipment_withdraw_constraints out withdraw_list = out"
    unfolding out withdraw_map by (simp add: comp_def)
  then show ?thesis unfolding out withdraw_map by simp
qed

theorem apply_shipment_withdraw_constraints_spec_witness:
  "sh_unified_code (example_shipments ! 1) \<in> wd_unified_code ` set [\<lparr>wd_unified_code = ''Q''\<rparr>, \<lparr>wd_unified_code = ''X''\<rparr>] \<and>
   sh_unified_code (example_shipments ! 0) \<notin> wd_unified_code ` set [\<lparr>wd_unified_code = ''Q''\<rparr>, \<lparr>wd_unified_code = ''X''\<rparr>] \<and>
   sh_shipment (example_shipments ! 1) = 57 \<and>
   sh_shipment (apply_shipment_withdraw_constraints example_shipments
        [\<lparr>wd_unified_code = ''Q''\<rparr>, \<lparr>wd_unified_code = ''X''\<rparr>] ! 1) = 0 \<and>
   sh_current_stock (apply_shipment_withdraw_constraints example_shipments
        [\<lparr>wd_unified_code = ''Q''\<rparr>, \<lparr>wd_unified_code = ''X''\<rparr>] ! 1) = 3 \<and>
   apply_shipment_withdraw_constraints example_shipments
        [\<lparr>wd_unified_code = ''Q''\<rparr>, \<lparr>wd_unified_code = ''X''\<rparr>] ! 0 = example_shipments ! 0 \<and>
   apply_shipment_withdraw_constraints
     (apply_shipment_withdraw_constraints example_shipments
        [\<lparr>wd_unified_code = ''Q''\<rparr>, \<lparr>wd_unified_code = ''X''\<rparr>])
     [\<lparr>wd_unified_code = ''Q''\<rparr>, \<lparr>wd_unified_code = ''X''\<rparr>]
     = apply_shipment_withdraw_constraints example_shipments
        [\<lparr>wd_unified_code = ''Q''\<rparr>, \<lparr>wd_unified_code = ''X''\<rparr>]"
proof -
  let ?wl = "[\<lparr>wd_unified_code = ''Q''\<rparr>, \<lparr>wd_unified_code = ''X''\<rparr>]"
  let ?out = "apply_shipment_withdraw_constraints example_shipments ?wl"
  note t = apply_shipment_withdraw_constraints_spec[of ?out example_shipments ?wl, OF refl]
  have len: "0 < length example_shipments" "1 < length example_shipments"
    by (simp_all add: example_shipments_def)
  have q: "sh_unified_code (example_shipments ! 1) \<in> wd_unified_code ` set ?wl"
    and p: "sh_unified_code (example_shipments ! 0) \<notin> wd_unified_code ` set ?wl"
    and s: "sh_shipment (example_shipments ! 1) = 57"
       "sh_current_stock (example_shipments ! 1) = 3"
    by (simp_all add: example_shipments_def)
  have 0: "?out ! 0 = example_shipments ! 0" using t len(1) p by blast
  have 1: "?out ! 1 = (example_shipments ! 1)\<lparr>sh_shipment := 0\<rparr>" using t len(2) q by blast
  have i: "apply_shipment_withdraw_constraints ?out ?wl = ?out" using t by blast
  show ?thesis
    using q p s 0 i unfolding 1 by simp
qed

subsection \<open>Defecture, forecast side\<close>

lemma defecture_step_map:
  "defecture_step wb oz d forecast =
     map (\<lambda>r. if fc_unified_code r = df_unified_code d \<and>
                  (\<forall>r' \<in> set forecast. fc_unified_code r' = df_unified_code d
                       \<longrightarrow> \<not> past_end_date (fc_date r') (df_end_date d)) \<and>
                  dict_get wb (df_unified_code d) 0 + dict_get oz (df_unified_code d) 0 \<le> 0
               then r\<lparr>fc_quantity := 0\<rparr> else r) forecast"
proof -
  let ?Q = "\<forall>r' \<in> set forecast. fc_unified_code r' = df_unified_code d
                       \<longrightarrow> \<not> past_end_date (fc_date r') (df_end_date d)"
  let ?Z = "dict_get wb (df_unified_code d) 0 + dict_get oz (df_unified_code d) 0 \<le> 0"
  have e: "(length (filter (\<lambda>r. fc_unified_code r = df_unified_code d \<and>
                 past_end_date (fc_date r) (df_end_date d)) forecast) = 0) = ?Q"
    by (auto simp: filter_empty_conv)
  show ?thesis
  proof (cases "df_unified_code d \<in> set (map fc_unified_code forecast)")
    case False
    then have "\<forall>r \<in> set forecast. fc_unified_code r \<noteq> df_unified_code d" by force
    then have "map (\<lambda>r. if fc_unified_code r = df_unified_code d \<and> ?Q \<and> ?Z
               then r\<lparr>fc_quantity := 0\<rparr> else r) forecast = forecast"
      by (simp add: map_idI)
    then show ?thesis using False by (simp add: defecture_step_def Let_def)
  next
    case True
    show ?thesis
    proof (cases "?Q \<and> ?Z")
      case QZ: True
      then have "defecture_step wb oz d forecast
          = map (\<lambda>r. if fc_unified_code r = df_unified_code d then r\<lparr>fc_quantity := 0\<rparr> else r) forecast"
        using True unfolding defecture_step_def Let_def e by simp
      then show ?thesis using QZ by simp
    next
      case nQZ: False
      then have "defecture_step wb oz d forecast = forecast"
        using True unfolding defecture_step_def Let_def e by auto
      moreover have "map (\<lambda>r. if fc_unified_code r = df_unified_code d \<and> ?Q \<and> ?Z
               then r\<lparr>fc_quantity := 0\<rparr> else r) forecast = forecast"
      proof (rule map_idI)
        fix r
        have "\<not> (fc_unified_code r = df_unified_code d \<and> ?Q \<and> ?Z)"
          using nQZ by blast
        then show "(if fc_unified_code r = df_unified_code d \<and> ?Q \<and> ?Z
               then r\<lparr>fc_quantity := 0\<rparr> else r) = r"
          by (rule if_not_P)
      qed
      ultimately show ?thesis by simp
    qed
  qed
qed

lemma defecture_step_keys:
  "map (\<lambda>r. (fc_unified_code r, fc_date r)) (defecture_step wb oz d forecast)
     = map (\<lambda>r. (fc_unified_code r, fc_date r)) forecast"
  unfolding defecture_step_map by (simp add: comp_def if_distrib cong: if_cong)

lemma no_future_keys:
  fixes f f' :: "forecast_row list"
  assumes "map (\<lambda>r. (fc_unified_code r, fc_date r)) f' = map (\<lambda>r. (fc_unified_code r, fc_date r)) f"
  shows "(\<forall>r' \<in> set f'. fc_unified_code r' = c \<longrightarrow> \<not> past_end_date (fc_date r') e)
       = (\<forall>r' \<in> set f. fc_unified_code r' = c \<longrightarrow> \<not> past_end_date (fc_date r') e)"
proof -
  have "(\<forall>r' \<in> set g. fc_unified_code r' = c \<longrightarrow> \<not> past_end_date (fc_date r') e)
      = (\<forall>k \<in> set (map (\<lambda>r. (fc_unified_code r, fc_date r)) g). fst k = c \<longrightarrow> \<not> past_end_date (snd k) e)"
    for g :: "forecast_row list"
    by auto
  from this[of f'] this[of f] show ?thesis by (simp only: assms)
qed

lemma defecture_fold_map:
  "fold (defecture_step wb oz) dl forecast =
     map (\<lambda>r. if \<exists>d \<in> set dl. df_unified_code d = fc_unified_code r \<and>
                  (\<forall>r' \<in> set forecast. fc_unified_code r' = fc_unified_code r
                       \<longrightarrow> \<not> past_end_date (fc_date r') (df_end_date d)) \<and>
                  dict_get wb (fc_unified_code r) 0 + dict_get oz (fc_unified_code r) 0 \<le> 0
               then r\<lparr>fc_quantity := 0\<rparr> else r) forecast"
proof (induction dl arbitrary: forecast)
  case Nil
  then show ?case by (simp add: map_idI)
next
  case (Cons d ds)
  let ?f' = "defecture_step wb oz d forecast"
  have k: "map (\<lambda>r. (fc_unified_code r, fc_date r)) ?f' = map (\<lambda>r. (fc_unified_code r, fc_date r)) forecast"
    by (rule defecture_step_keys)
  have "fold (defecture_step wb oz) (d # ds) forecast = fold (defecture_step wb oz) ds ?f'"
    by simp
  also have "\<dots> = map (\<lambda>r. if \<exists>d \<in> set ds. df_unified_code d = fc_unified_code r \<and>
                  (\<forall>r' \<in> set forecast. fc_unified_code r' = fc_unified_code r
                       \<longrightarrow> \<not> past_end_date (fc_date r') (df_end_date d)) \<and>
                  dict_get wb (fc_unified_code r) 0 + dict_get oz (fc_unified_code r) 0 \<le> 0
               then r\<lparr>fc_quantity := 0\<rparr> else r) ?f'"
    unfolding Cons.IH[of ?f'] no_future_keys[OF k] ..
  also have "\<dots> = map (\<lambda>r. if \<exists>d \<in> set (d # ds). df_unified_code d = fc_unified_code r \<and>
                  (\<forall>r' \<in> set forecast. fc_unified_code r' = fc_unified_code r
                       \<longrightarrow> \<not> past_end_date (fc_date r') (df_end_date d)) \<and>
                  dict_get wb (fc_unified_code r) 0 + dict_get oz (fc_unified_code r) 0 \<le> 0
               then r\<lparr>fc_quantity := 0\<rparr> else r) forecast"
    unfolding defecture_step_map by (auto simp: comp_def)
  finally show ?case .
qed

lemma example_wb_P: "dict_get (get_latest_stocks example_wb_stocks) ''P'' 0 = 0"
  by code_simp

lemma example_ozon_none: "dict_get (get_latest_stocks []) c (0::real) = 0"
  by (simp add: get_latest_stocks_def dict_get_def)

text \<open>
  Claim C6, as stated, fails: the pass decides per product, not per row.  With a defecture
  entry for \<open>P\<close> that ends on 31 January, no stock, and forecast rows of \<open>P\<close> on 5 January
  and on 15 February, the row of 5 January is not past the end date, yet it keeps its
  quantity: one row of the product past the end date switches the entry off for all rows.
\<close>

theorem apply_defecture_constraints_per_row_fails:
  "\<not> past_end_date (2024, 1, 5) (Some (2024, 1, 31)) \<and>
   past_end_date (2024, 2, 15) (Some (2024, 1, 31)) \<and>
   dict_get (get_latest_stocks []) ''P'' 0 + dict_get (get_latest_stocks []) ''P'' 0 \<le> 0 \<and>
   apply_defecture_constraints
     [\<lparr>fc_date = (2024, 1, 5), fc_unified_code = ''P'', fc_quantity = 10\<rparr>,
      \<lparr>fc_date = (2024, 2, 15), fc_unified_code = ''P'', fc_quantity = 10\<rparr>]
     [\<lparr>df_unified_code = ''P'', df_end_date = Some (2024, 1, 31)\<rparr>] [] []
   = [\<lparr>fc_date = (2024, 1, 5), fc_unified_code = ''P'', fc_quantity = 10\<rparr>,
      \<lparr>fc_date = (2024, 2, 15), fc_unified_code = ''P'', fc_quantity = 10\<rparr>]"
  by (simp add: past_end_date_def get_latest_stocks_def dict_get_def apply_defecture_constraints_def
        defecture_step_def Let_def)

text \<open>
  Claim C6, amended.  The forecast-side defecture constraint zeroes the quantity of a
  forecast row exactly when the defecture list has an entry for the row's product such that
  no forecast row of that product is dated after the entry's end date, and the product's
  latest combined marketplace (wb + ozon) stock is at most 0; every other row is returned
  unchanged.  In particular a row dated after the end date of every entry of its product is
  unchanged.
\<close>

theorem apply_defecture_constraints_spec:
  assumes out: "out = apply_defecture_constraints forecast defecture_list wb_stocks ozon_stocks"
    and stock: "stock = (\<lambda>code. dict_get (get_latest_stocks wb_stocks) code 0
                              + dict_get (get_latest_stocks ozon_stocks) code 0)"
  shows "length out = length forecast \<and>
         (\<forall>i < length forecast.
            ((\<exists>d \<in> set defecture_list. df_unified_code d = fc_unified_code (forecast ! i) \<and>
                 (\<forall>r' \<in> set forecast. fc_unified_code r' = fc_unified_code (forecast ! i)
                      \<longrightarrow> \<not> past_end_date (fc_date r') (df_end_date d))) \<and>
             stock (fc_unified_code (forecast ! i)) \<le> 0
               \<longrightarrow> out ! i = (forecast ! i)\<lparr>fc_quantity := 0\<rparr>) \<and>
            (\<not> ((\<exists>d \<in> set defecture_list. df_unified_code d = fc_unified_code (forecast ! i) \<and>
                 (\<forall>r' \<in> set forecast. fc_unified_code r' = fc_unified_code (forecast ! i)
                      \<longrightarrow> \<not> past_end_date (fc_date r') (df_end_date d))) \<and>
                stock (fc_unified_code (forecast ! i)) \<le> 0)
               \<longrightarrow> out ! i = forecast ! i) \<and>
            ((\<forall>d \<in> set defecture_list. df_unified_code d = fc_unified_code (forecast ! i)
                 \<longrightarrow> past_end_date (fc_date (forecast ! i)) (df_end_date d))
               \<longrightarrow> out ! i = forecast ! i))"
proof -
  let ?cond = "\<lambda>r. \<exists>d \<in> set defecture_list. df_unified_code d = fc_unified_code r \<and>
                  (\<forall>r' \<in> set forecast. fc_unified_code r' = fc_unified_code r
                       \<longrightarrow> \<not> past_end_date (fc_date r') (df_end_date d)) \<and>
                  stock (fc_unified_code r) \<le> 0"
  have o: "out = map (\<lambda>r. if ?cond r then r\<lparr>fc_quantity := 0\<rparr> else r) forecast"
  proof (cases "defecture_list = []")
    case True
    then show ?thesis unfolding out by (simp add: apply_defecture_constraints_def map_idI)
  next
    case False
    then show ?thesis
      unfolding out stock apply_defecture_constraints_def defecture_fold_map by simp
  qed
  have L: "length out = length forecast" by (simp add: o)
  have R: "out ! i = (if ?cond (forecast ! i) then (forecast ! i)\<lparr>fc_quantity := 0\<rparr> else forecast ! i)"
    if "i < length forecast" for i
    using that by (simp add: o)
  have P: "\<not> ?cond (forecast ! i)"
    if i: "i < length forecast"
      and past: "\<forall>d \<in> set defecture_list. df_unified_code d = fc_unified_code (forecast ! i)
                 \<longrightarrow> past_end_date (fc_date (forecast ! i)) (df_end_date d)" for i
  proof
    assume "?cond (forecast ! i)"
    then obtain d where d: "d \<in> set defecture_list" "df_unified_code d = fc_unified_code (forecast ! i)"
      "\<forall>r' \<in> set forecast. fc_unified_code r' = fc_unified_code (forecast ! i)
                       \<longrightarrow> \<not> past_end_date (fc_date r') (df_end_date d)" by blast
    have "forecast ! i \<in> set forecast" using i by simp
    then have "\<not> past_end_date (fc_date (forecast ! i)) (df_end_date d)" using d(3) by blast
    then show False using past d(1,2) by blast
  qed
  show ?thesis
  proof (intro conjI allI impI)
    show "length out = length forecast" by (rule L)
  next
    fix i assume i: "i < length forecast"
      and c: "(\<exists>d \<in> set defecture_list. df_unified_code d = fc_unified_code (forecast ! i) \<and>
                 (\<forall>r' \<in> set forecast. fc_unified_code r' = fc_unified_code (forecast ! i)
                      \<longrightarrow> \<not> past_end_date (fc_date r') (df_end_date d))) \<and>
             stock (fc_unified_code (forecast ! i)) \<le> 0"
    then have C: "?cond (forecast ! i)" by blast
    show "out ! i = (forecast ! i)\<lparr>fc_quantity := 0\<rparr>"
      unfolding R[OF i] using C by (rule if_P)
  next
    fix i assume i: "i < length forecast"
      and c: "\<not> ((\<exists>d \<in> set defecture_list. df_unified_code d = fc_unified_code (forecast ! i) \<and>
                 (\<forall>r' \<in> set forecast. fc_unified_code r' = fc_unified_code (forecast ! i)
                      \<longrightarrow> \<not> past_end_date (fc_date r') (df_end_date d))) \<and>
             stock (fc_unified_code (forecast ! i)) \<le> 0)"
    then have C: "\<not> ?cond (forecast ! i)" by blast
    show "out ! i = forecast ! i"
      unfolding R[OF i] using C by (rule if_not_P)
  next
    fix i assume i: "i < length forecast"
      and c: "\<forall>d \<in> set defecture_list. df_unified_code d = fc_unified_code (forecast ! i)
                 \<longrightarrow> past_end_date (fc_date (forecast ! i)) (df_end_date d)"
    show "out ! i = forecast ! i"
      unfolding R[OF i] using P[OF i c] by (rule if_not_P)
  qed
qed

theorem apply_defecture_constraints_spec_witness:
  "(\<exists>d \<in> set example_defecture_list. df_unified_code d = fc_unified_code (example_daily_forecast ! 0) \<and>
       (\<forall>r' \<in> set example_daily_forecast. fc_unified_code r' = fc_unified_code (example_daily_forecast ! 0)
            \<longrightarrow> \<not> past_end_date (fc_date r') (df_end_date d))) \<and>
   dict_get (get_latest_stocks example_wb_stocks) (fc_unified_code (example_daily_forecast ! 0)) 0
     + dict_get (get_latest_stocks []) (fc_unified_code (example_daily_forecast ! 0)) 0 \<le> 0 \<and>
   apply_defecture_constraints example_daily_forecast example_defecture_list example_wb_stocks [] ! 0
     = \<lparr>fc_date = (2024, 1, 5), fc_unified_code = ''P'', fc_quantity = 0\<rparr> \<and>
   past_end_date (fc_date (example_daily_forecast ! 3)) (Some (2024, 2, 1)) \<and>
   apply_defecture_constraints example_daily_forecast example_defecture_list example_wb_stocks [] ! 3
     = \<lparr>fc_date = (2024, 3, 1), fc_unified_code = ''S'', fc_quantity = 9\<rparr>"
proof -
  let ?out = "apply_defecture_constraints example_daily_forecast example_defecture_list example_wb_stocks []"
  note t = apply_defecture_constraints_spec[OF refl refl,
      of example_daily_forecast example_defecture_list example_wb_stocks "[]"]
  have len: "0 < length example_daily_forecast" "3 < length example_daily_forecast"
    by (simp_all add: example_daily_forecast_def)
  have r0: "example_daily_forecast ! 0 = \<lparr>fc_date = (2024, 1, 5), fc_unified_code = ''P'', fc_quantity = 10\<rparr>"
    and r3: "example_daily_forecast ! 3 = \<lparr>fc_date = (2024, 3, 1), fc_unified_code = ''S'', fc_quantity = 9\<rparr>"
    by (simp_all add: example_daily_forecast_def)
  have h0: "\<exists>d \<in> set example_defecture_list. df_unified_code d = fc_unified_code (example_daily_forecast ! 0) \<and>
       (\<forall>r' \<in> set example_daily_forecast. fc_unified_code r' = fc_unified_code (example_daily_forecast ! 0)
            \<longrightarrow> \<not> past_end_date (fc_date r') (df_end_date d))"
    unfolding r0 by (simp add: example_defecture_list_def example_daily_forecast_def past_end_date_def)
  have s0: "dict_get (get_latest_stocks example_wb_stocks) (fc_unified_code (example_daily_forecast ! 0)) 0
     + dict_get (get_latest_stocks []) (fc_unified_code (example_daily_forecast ! 0)) 0 \<le> 0"
    unfolding r0 by (simp add: example_wb_P example_ozon_none)
  have h3: "\<forall>d \<in> set example_defecture_list. df_unified_code d = fc_unified_code (example_daily_forecast ! 3)
       \<longrightarrow> past_end_date (fc_date (example_daily_forecast ! 3)) (df_end_date d)"
    unfolding r3 by (simp add: example_defecture_list_def past_end_date_def)
  have o0: "?out ! 0 = (example_daily_forecast ! 0)\<lparr>fc_quantity := 0\<rparr>"
    using t len(1) h0 s0 by blast
  have o3: "?out ! 3 = example_daily_forecast ! 3"
    using t len(2) h3 by blast
  have p3: "past_end_date (fc_date (example_daily_forecast ! 3)) (Some (2024, 2, 1))"
    unfolding r3 by (simp add: past_end_date_def)
  show ?thesis
    using h0 s0 p3 unfolding o0 o3 unfolding r0 r3 by simp
qed

section \<open>Properties of the forecast ledger\<close>

text \<open>
  Claim C9.  The history is meant to hold the rows of the snapshots that match every filter
  given, each row with the marketplace, the model name and the timestamp the snapshot was
  saved under.  Two runs of the code show otherwise.  A snapshot saved under the model name
  \<open>baseline_mean\<close>, one of the names the forecaster saves under, comes back with the model
  name \<open>baseline\<close> and the timestamp \<open>mean_20240101_120000\<close>: the file name is split at
  every underscore.  And with the filters marketplace \<open>wb\<close> and model \<open>arima\<close> the history
  holds the rows of the \<open>ozon\<close> snapshot as well: the pattern of the model filter replaces
  the pattern of the marketplace filter.
\<close>

theorem get_forecast_history_defects:
  "get_forecast_history
     (save_forecast []
        [\<lparr>fc_date = (2024, 2, 1), fc_unified_code = ''P'', fc_quantity = 10\<rparr>]
        ''baseline_mean'' ''wb'' (2024, 1, 1, 12, 0, 0) True)
     None None None
   = [\<lparr>hr_date = (2024, 2, 1), hr_unified_code = ''P'', hr_quantity = 10,
       hr_marketplace = Some ''wb'', hr_model_name = Some ''baseline'',
       hr_forecast_date = Some ''mean_20240101_120000''\<rparr>] \<and>
   get_forecast_history
     (save_forecast
        (save_forecast []
           [\<lparr>fc_date = (2024, 2, 1), fc_unified_code = ''P'', fc_quantity = 10\<rparr>]
           ''arima'' ''wb'' (2024, 1, 1, 12, 0, 0) False)
        [\<lparr>fc_date = (2024, 2, 1), fc_unified_code = ''P'', fc_quantity = 20\<rparr>]
        ''arima'' ''ozon'' (2024, 1, 1, 12, 0, 5) False)
     (Some ''wb'') (Some ''arima'') None
   = [\<lparr>hr_date = (2024, 2, 1), hr_unified_code = ''P'', hr_quantity = 10,
       hr_marketplace = Some ''wb'', hr_model_name = Some ''arima'',
       hr_forecast_date = Some ''20240101_120000''\<rparr>,
      \<lparr>hr_date = (2024, 2, 1), hr_unified_code = ''P'', hr_quantity = 20,
       hr_marketplace = Some ''ozon'', hr_model_name = Some ''arima'',
       hr_forecast_date = Some ''20240101_120005''\<rparr>]"
  by code_simp

end
